theory Spec2Isabelle
  imports Main "HOL-Library.AList"
begin

section \<open>JavaScript values\<close>

text \<open>
  The values that cross the channel. Numbers are the integers that a JavaScript number
  holds exactly and prints in plain decimal (status codes, lengths, byte counts);
  strings are ASCII. An array carries its elements and, second, the named properties
  that were set on it (an array is an object: \<^verbatim>\<open>body._headers = headers\<close> works
  on an array body). An object is the list of its own enumerable properties, each name
  once, in the order they were set; nothing below depends on that order.
\<close>

datatype jsval =
    JUndefined
  | JNull
  | JBool bool
  | JNum int
  | JStr string
  | JArr "jsval list" "(string \<times> jsval) list"
  | JObj "(string \<times> jsval) list"

datatype exn =
    TypeError
  | SyntaxError
  | Thrown jsval

type_synonym 'a result = "exn option \<times> 'a"

fun truthy :: "jsval \<Rightarrow> bool" where
  "truthy JUndefined = False"
| "truthy JNull = False"
| "truthy (JBool b) = b"
| "truthy (JNum n) = (n \<noteq> 0)"
| "truthy (JStr s) = (s \<noteq> [])"
| "truthy (JArr xs ps) = True"
| "truthy (JObj fs) = True"

definition lookup :: "(string \<times> jsval) list \<Rightarrow> string \<Rightarrow> jsval" where
  "lookup fs k = (case map_of fs k of None \<Rightarrow> JUndefined | Some v \<Rightarrow> v)"

text \<open>Decimal rendering of a number, as \<^verbatim>\<open>String(n)\<close> gives it for an integer.\<close>

fun show_nat :: "nat \<Rightarrow> string" where
  "show_nat n =
     (if n < 10 then [char_of (48 + n)]
      else show_nat (n div 10) @ [char_of (48 + n mod 10)])"

declare show_nat.simps [simp del]

definition show_int :: "int \<Rightarrow> string" where
  "show_int i = (if i < 0 then CHR ''-'' # show_nat (nat (- i)) else show_nat (nat i))"

fun join_comma :: "string list \<Rightarrow> string" where
  "join_comma [] = []"
| "join_comma [x] = x"
| "join_comma (x # y # ys) = x @ CHR '','' # join_comma (y # ys)"

text \<open>\<^verbatim>\<open>String(v)\<close>, which is also how a value becomes a property key.\<close>

fun to_string :: "jsval \<Rightarrow> string" where
  "to_string JUndefined = ''undefined''"
| "to_string JNull = ''null''"
| "to_string (JBool b) = (if b then ''true'' else ''false'')"
| "to_string (JNum i) = show_int i"
| "to_string (JStr s) = s"
| "to_string (JArr xs ps) =
     join_comma (map (\<lambda>x. if x = JUndefined \<or> x = JNull then [] else to_string x) xs)"
| "to_string (JObj fs) = ''[object Object]''"

text \<open>
  Reading a named property (a name that is not an array index). \<open>None\<close> is the
  TypeError of a read on \<^verbatim>\<open>null\<close> or \<^verbatim>\<open>undefined\<close>.
\<close>

fun get_prop :: "jsval \<Rightarrow> string \<Rightarrow> jsval option" where
  "get_prop JUndefined k = None"
| "get_prop JNull k = None"
| "get_prop (JBool b) k = Some JUndefined"
| "get_prop (JNum n) k = Some JUndefined"
| "get_prop (JStr s) k = Some (if k = ''length'' then JNum (int (length s)) else JUndefined)"
| "get_prop (JArr xs ps) k =
     Some (if k = ''length'' then JNum (int (length xs)) else lookup ps k)"
| "get_prop (JObj fs) k = Some (lookup fs k)"

text \<open>
  Reading \<^verbatim>\<open>v[n]\<close> for a computed number \<open>n\<close> (\<open>None\<close> is NaN) on a value
  that is neither \<^verbatim>\<open>null\<close> nor \<^verbatim>\<open>undefined\<close>.
\<close>

definition index_key :: "int option \<Rightarrow> string" where
  "index_key n = (case n of None \<Rightarrow> ''NaN'' | Some i \<Rightarrow> show_int i)"

fun get_index :: "jsval \<Rightarrow> int option \<Rightarrow> jsval" where
  "get_index (JArr xs ps) n =
     (case n of
        Some i \<Rightarrow> if 0 \<le> i \<and> i < int (length xs) then xs ! nat i else lookup ps (index_key n)
      | None \<Rightarrow> lookup ps (index_key n))"
| "get_index (JStr s) n =
     (case n of
        Some i \<Rightarrow> if 0 \<le> i \<and> i < int (length s) then JStr [s ! nat i] else JUndefined
      | None \<Rightarrow> JUndefined)"
| "get_index (JObj fs) n = lookup fs (index_key n)"
| "get_index v n = JUndefined"

text \<open>
  Assigning a property. On a primitive the assignment throws in strict mode and is
  dropped otherwise.
\<close>

fun set_prop :: "bool \<Rightarrow> jsval \<Rightarrow> string \<Rightarrow> jsval \<Rightarrow> exn + jsval" where
  "set_prop strict_mode (JObj fs) k x = Inr (JObj (AList.update k x fs))"
| "set_prop strict_mode (JArr xs ps) k x = Inr (JArr xs (AList.update k x ps))"
| "set_prop strict_mode JUndefined k x = Inl TypeError"
| "set_prop strict_mode JNull k x = Inl TypeError"
| "set_prop strict_mode v k x = (if strict_mode then Inl TypeError else Inr v)"

text \<open>The properties a \<^verbatim>\<open>for (i in v)\<close> loop visits, with their values.\<close>

fun own_enumerable :: "jsval \<Rightarrow> (string \<times> jsval) list" where
  "own_enumerable (JObj fs) = fs"
| "own_enumerable (JArr xs ps) = zip (map show_nat [0..<length xs]) xs @ ps"
| "own_enumerable (JStr s) = zip (map show_nat [0..<length s]) (map (\<lambda>c. JStr [c]) s)"
| "own_enumerable v = []"

section \<open>Request parameters\<close>

text \<open>
  A value of the form-data list: a plain value, a DOM \<^verbatim>\<open>File\<close> (name and media
  type), or the object \<^verbatim>\<open>{fileContents, fileName, mimeType}\<close> a finished read
  puts in its place.
\<close>

datatype fdval =
    Plain jsval
  | File string string
  | FileObject "nat list" string string

text \<open>
  A parameter object: its entries and its form-data list, if it has one. Parameter
  objects are values here: each call of \<^verbatim>\<open>request\<close> brings an object of its own,
  and whoever holds it (the handle, the buffer, a pending read) holds it as it was when
  handed over.
\<close>

record params =
  entries :: "(string \<times> jsval) list"
  formData :: "(string \<times> fdval) list option"

fun isFile :: "fdval \<Rightarrow> bool" where
  "isFile (File n t) = True"
| "isFile v = False"

fun hasFile_loop :: "(string \<times> fdval) list \<Rightarrow> bool" where
  "hasFile_loop [] = False"
| "hasFile_loop (e # es) = (if isFile (snd e) then True else hasFile_loop es)"

definition hasFile :: "params \<Rightarrow> bool" where
  "hasFile p = (case formData p of None \<Rightarrow> False | Some fd \<Rightarrow> hasFile_loop fd)"

text \<open>
  What is handed to \<^verbatim>\<open>postMessage\<close>: the parameter object itself, or the text
  \<^verbatim>\<open>JSON.stringify\<close> made of the parameters as they were when it ran.
\<close>

datatype payload =
    PJson params
  | PObject params

fun hasFile_local :: "payload \<Rightarrow> bool" where
  "hasFile_local (PJson p) = False"
| "hasFile_local (PObject p) = hasFile p"

fun has_success :: "payload \<Rightarrow> bool" where
  "has_success (PJson p) = (map_of (entries p) ''success'' = Some (JBool True))"
| "has_success (PObject p) = (map_of (entries p) ''success'' = Some (JBool True))"

section \<open>The environment\<close>

text \<open>
  The browser facts the module probes once (\<open>postStrings\<close>, \<open>supportsProgress\<close>),
  whether the script runs in strict mode, and the collaborators it calls: the
  \<^verbatim>\<open>uid\<close> generator, \<^verbatim>\<open>JSON.parse\<close> (\<open>None\<close> is its SyntaxError), the
  number a string converts to (\<open>None\<close> is NaN) and the channel's
  \<^verbatim>\<open>postMessage\<close>, which either accepts a payload or throws.
\<close>

record env =
  postStrings :: bool
  strict :: bool
  supportsProgress :: bool
  uid :: "nat \<Rightarrow> string"
  JSON_parse :: "string \<Rightarrow> jsval option"
  string_to_number :: "string \<Rightarrow> int option"
  postMessage_throws :: "payload \<Rightarrow> exn option"

fun to_number :: "env \<Rightarrow> jsval \<Rightarrow> int option" where
  "to_number E JUndefined = None"
| "to_number E JNull = Some 0"
| "to_number E (JBool b) = Some (if b then 1 else 0)"
| "to_number E (JNum n) = Some n"
| "to_number E (JStr s) = string_to_number E s"
| "to_number E v = string_to_number E (to_string v)"

definition proxyOrigin :: string where
  "proxyOrigin = ''https://public-api.wordpress.com''"

section \<open>Module state and effects\<close>

text \<open>
  What \<^verbatim>\<open>dispatchEvent\<close> is called on: a handle (an \<^verbatim>\<open>XMLHttpRequest\<close> created by
  \<^verbatim>\<open>request\<close>, named by its index in the heap), the \<^verbatim>\<open>upload\<close> object of a
  handle, or a value that is no event target at all, on which the call throws.
\<close>

datatype target =
    Handle nat
  | Upload nat
  | NotATarget jsval

text \<open>
  The events of the module: "load" with the body it carries as \<^verbatim>\<open>data\<close>,
  \<^verbatim>\<open>body\<close> and \<^verbatim>\<open>response\<close>, "error" with its \<^verbatim>\<open>error\<close>, "abort", and
  "progress" with the object it was built from.
\<close>

datatype event =
    Load jsval
  | Error jsval
  | Abort
  | Progress jsval

text \<open>The one argument of \<^verbatim>\<open>fn(err)\<close>: an error value, or the event itself.\<close>

datatype cbarg =
    Value jsval
  | Event event

text \<open>
  What the module does to the outside, in order: \<open>Submitted p\<close> is a call
  \<^verbatim>\<open>submitRequest(p)\<close> (its first statement traces \<open>p\<close>), \<open>Posted\<close> a payload
  the channel accepted, \<open>Dispatched\<close> an event dispatched on a target, and
  \<open>Callback r e x\<close> the call \<^verbatim>\<open>fn(e, x)\<close> of the callback passed with the call that
  created handle \<open>r\<close> (\<open>None\<close> is \<^verbatim>\<open>null\<close>).
\<close>

datatype effect =
    Submitted params
  | Posted payload
  | Dispatched target event
  | Callback nat "cbarg option" jsval

text \<open>
  A handle: the parameters stored on it, whether a callback was passed, and the
  \<^verbatim>\<open>called\<close> flag the two wrappers of the callback share. The parameter object is
  shared with the buffer and the payload in the source; no statement reads it back from
  the handle except a trace, so the handle keeps the parameters as they were registered.
\<close>

record xhr =
  xhr_params :: params
  has_fn :: bool
  called :: bool

text \<open>
  The closure of one \<^verbatim>\<open>postAsArrayBuffer\<close> call: its parameters, \<^verbatim>\<open>count\<close>,
  \<^verbatim>\<open>called\<close>, and the indices of the form-data entries whose reader is still running.
\<close>

record job =
  job_params :: params
  job_count :: int
  job_called :: bool
  job_readers :: "nat list"

text \<open>
  The module-level variables: whether \<^verbatim>\<open>iframe\<close> is set, \<^verbatim>\<open>loaded\<close>,
  \<^verbatim>\<open>buffered\<close> (\<open>None\<close> while it is \<^verbatim>\<open>undefined\<close> or \<^verbatim>\<open>null\<close>),
  \<^verbatim>\<open>hasFileSerializationBug\<close>, and \<^verbatim>\<open>requests\<close>, the registry, as the map from the
  tokens stored in it to their handles. With them: the handles created so far, the
  pending attachment reads, the number of tokens drawn from \<^verbatim>\<open>uid\<close>, and the effects
  so far.
\<close>

record state =
  iframe :: bool
  loaded :: bool
  buffered :: "params list option"
  hasFileSerializationBug :: bool
  requests :: "string \<rightharpoonup> nat"
  heap :: "xhr list"
  jobs :: "job list"
  uid_calls :: nat
  effects :: "effect list"

definition init :: state where
  "init = \<lparr> iframe = False, loaded = False, buffered = None,
            hasFileSerializationBug = False, requests = Map.empty, heap = [],
            jobs = [], uid_calls = 0, effects = [] \<rparr>"

section \<open>Event dispatch on a handle\<close>

text \<open>
  \<^verbatim>\<open>resolve\<close> and \<^verbatim>\<open>reject\<close> build an event and call \<^verbatim>\<open>dispatchEvent\<close> on
  their first argument. The listeners the module itself binds are the two wrappers
  of \<^verbatim>\<open>request\<close>: \<^verbatim>\<open>_onLoad\<close> on "load", \<^verbatim>\<open>onError\<close> on "abort" and "error",
  sharing one \<^verbatim>\<open>called\<close> flag. Listeners the caller attaches are outside the
  module; the \<open>Dispatched\<close> effect records the event they see.
\<close>

text \<open>\<^verbatim>\<open>fn(null, err.response || xhr.response)\<close>; the handle is never opened, its
  own \<^verbatim>\<open>response\<close> is the empty string.\<close>

definition onLoad_arg :: "jsval \<Rightarrow> jsval" where
  "onLoad_arg body = (if truthy body then body else JStr [])"

text \<open>\<^verbatim>\<open>fn(err.error || err.err || err)\<close>\<close>

definition onError_arg :: "event \<Rightarrow> cbarg" where
  "onError_arg ev = (case ev of Error e \<Rightarrow> if truthy e then Value e else Event ev | _ \<Rightarrow> Event ev)"

definition listener_effect :: "nat \<Rightarrow> event \<Rightarrow> effect option" where
  "listener_effect r ev =
     (case ev of
        Load body \<Rightarrow> Some (Callback r None (onLoad_arg body))
      | Error e \<Rightarrow> Some (Callback r (Some (onError_arg ev)) JUndefined)
      | Abort \<Rightarrow> Some (Callback r (Some (onError_arg ev)) JUndefined)
      | Progress d \<Rightarrow> None)"

definition fire :: "nat \<Rightarrow> event \<Rightarrow> state \<Rightarrow> state" where
  "fire r ev s =
     (if r < length (heap s) \<and> has_fn (heap s ! r) \<and> \<not> called (heap s ! r) then
        (case listener_effect r ev of
           None \<Rightarrow> s
         | Some eff \<Rightarrow>
             s\<lparr> heap := (heap s)[r := (heap s ! r)\<lparr>called := True\<rparr>],
                effects := effects s @ [eff] \<rparr>)
      else s)"

definition dispatchEvent :: "target \<Rightarrow> event \<Rightarrow> state \<Rightarrow> state result" where
  "dispatchEvent t ev s =
     (case t of
        Handle r \<Rightarrow> (None, fire r ev (s\<lparr>effects := effects s @ [Dispatched t ev]\<rparr>))
      | Upload r \<Rightarrow> (None, s\<lparr>effects := effects s @ [Dispatched t ev]\<rparr>)
      | NotATarget v \<Rightarrow> (Some TypeError, s))"

definition resolve :: "target \<Rightarrow> jsval \<Rightarrow> state \<Rightarrow> state result" where
  "resolve x body s = dispatchEvent x (Load body) s"

definition reject :: "target \<Rightarrow> jsval \<Rightarrow> state \<Rightarrow> state result" where
  "reject x err s = dispatchEvent x (Error err) s"

section \<open>toTitle\<close>

definition lower_letters :: string where
  "lower_letters = ''abcdefghijklmnopqrstuvwxyz''"

definition upper_letters :: string where
  "upper_letters = ''ABCDEFGHIJKLMNOPQRSTUVWXYZ''"

definition is_lower :: "char \<Rightarrow> bool" where
  "is_lower c = (c \<in> set lower_letters)"

definition upper :: "char \<Rightarrow> char" where
  "upper c = (case map_of (zip lower_letters upper_letters) c of None \<Rightarrow> c | Some u \<Rightarrow> u)"

text \<open>
  The global replace of \<^verbatim>\<open>/((^|_)[a-z])/g\<close>, left to right: a lower-case letter at
  the very start, or an underscore with the lower-case letter after it, is replaced by
  the upper-case letter alone. \<open>start\<close> says whether the scan is at position 0.
\<close>

fun title_scan :: "bool \<Rightarrow> string \<Rightarrow> string" where
  "title_scan start [] = []"
| "title_scan start [c] = (if start \<and> is_lower c then [upper c] else [c])"
| "title_scan start (c # d # cs) =
     (if start \<and> is_lower c then upper c # title_scan False (d # cs)
      else if c = CHR ''_'' \<and> is_lower d then upper d # title_scan False cs
      else c # title_scan False (d # cs))"

definition toTitle :: "jsval \<Rightarrow> string" where
  "toTitle str = (case str of JStr s \<Rightarrow> if s = [] then [] else title_scan True s | _ \<Rightarrow> [])"

section \<open>The fallback path: reading attachments\<close>

definition postMessage :: "env \<Rightarrow> payload \<Rightarrow> state \<Rightarrow> state result" where
  "postMessage E pl s =
     (case postMessage_throws E pl of
        Some e \<Rightarrow> (Some e, s)
      | None \<Rightarrow> (None, s\<lparr>effects := effects s @ [Posted pl]\<rparr>))"

definition file_indices :: "(string \<times> fdval) list \<Rightarrow> nat list" where
  "file_indices fd = filter (\<lambda>i. isFile (snd (fd ! i))) [0..<length fd]"

text \<open>
  \<^verbatim>\<open>postAsArrayBuffer\<close> starts one reader per attachment and leaves its closure
  behind as a job; with no attachment it posts at once. Without a form-data list,
  \<^verbatim>\<open>formData.length\<close> throws.
\<close>

definition postAsArrayBuffer :: "env \<Rightarrow> params \<Rightarrow> state \<Rightarrow> state result" where
  "postAsArrayBuffer E p s =
     (case formData p of
        None \<Rightarrow> (Some TypeError, s)
      | Some fd \<Rightarrow>
          (let readers = file_indices fd in
           if readers = [] then postMessage E (PObject p) s
           else (None, s\<lparr>jobs := jobs s @
                   [\<lparr> job_params = p, job_count = int (length readers),
                      job_called = False, job_readers = readers \<rparr>]\<rparr>)))"

definition set_entry :: "nat \<Rightarrow> fdval \<Rightarrow> params \<Rightarrow> params" where
  "set_entry i v p =
     (case formData p of
        None \<Rightarrow> p
      | Some fd \<Rightarrow> p\<lparr>formData := Some (fd[i := (fst (fd ! i), v)])\<rparr>)"

text \<open>
  The \<^verbatim>\<open>onLoad(err, file, i)\<close> closure of job \<open>j\<close> (\<open>idx\<close> is \<open>None\<close> when
  the caller passes no index). Its failure branch calls \<^verbatim>\<open>reject(err)\<close> with one
  argument: the read error stands where the handle is expected, and the error to
  report is \<^verbatim>\<open>undefined\<close>.
\<close>

definition onLoad ::
  "env \<Rightarrow> nat \<Rightarrow> jsval \<Rightarrow> fdval \<Rightarrow> nat option \<Rightarrow> state \<Rightarrow> state result" where
  "onLoad E j err file idx s =
     (let jb = jobs s ! j in
      if job_called jb then (None, s)
      else if truthy err then
        reject (NotATarget err) JUndefined (s\<lparr>jobs := (jobs s)[j := jb\<lparr>job_called := True\<rparr>]\<rparr>)
      else
        (case idx of
           None \<Rightarrow> (Some TypeError, s)
         | Some i \<Rightarrow>
             (let jb' = jb\<lparr> job_params := set_entry i file (job_params jb),
                            job_count := job_count jb - 1 \<rparr>;
                  s' = s\<lparr>jobs := (jobs s)[j := jb']\<rparr>
              in if job_count jb' = 0 then postMessage E (PObject (job_params jb')) s'
                 else (None, s'))))"

text \<open>
  \<^verbatim>\<open>fileToArrayBuffer\<close> sets two properties on its reader, \<^verbatim>\<open>onload\<close> and
  \<^verbatim>\<open>onError\<close>. A reader that finishes calls the function stored under
  \<^verbatim>\<open>onload\<close>; a reader that fails calls the one stored under \<^verbatim>\<open>onerror\<close>.
\<close>

datatype reader_event =
    ReadLoad "nat list"
  | ReadError jsval

datatype reader_handler =
    Reader_onload
  | Reader_onError

definition reader_properties :: "(string \<times> reader_handler) list" where
  "reader_properties = [(''onload'', Reader_onload), (''onError'', Reader_onError)]"

definition handler_property :: "reader_event \<Rightarrow> string" where
  "handler_property re = (case re of ReadLoad b \<Rightarrow> ''onload'' | ReadError e \<Rightarrow> ''onerror'')"

definition file_object :: "nat list \<Rightarrow> fdval \<Rightarrow> fdval" where
  "file_object bytes f = (case f of File n t \<Rightarrow> FileObject bytes n t | _ \<Rightarrow> f)"

definition run_handler ::
  "env \<Rightarrow> reader_handler \<Rightarrow> nat \<Rightarrow> nat \<Rightarrow> reader_event \<Rightarrow> state \<Rightarrow> state result" where
  "run_handler E h j i re s =
     (case (h, re) of
        (Reader_onload, ReadLoad bytes) \<Rightarrow>
          (case formData (job_params (jobs s ! j)) of
             None \<Rightarrow> (None, s)
           | Some fd \<Rightarrow> onLoad E j JNull (file_object bytes (snd (fd ! i))) (Some i) s)
      | (Reader_onError, ReadError e) \<Rightarrow> onLoad E j e (Plain JUndefined) None s
      | _ \<Rightarrow> (None, s))"

text \<open>The reader of entry \<open>i\<close> of job \<open>j\<close> finishes or fails; it does so once.\<close>

definition reader_fires :: "env \<Rightarrow> nat \<Rightarrow> nat \<Rightarrow> reader_event \<Rightarrow> state \<Rightarrow> state result" where
  "reader_fires E j i re s =
     (if j < length (jobs s) \<and> i \<in> set (job_readers (jobs s ! j)) then
        (let jb = jobs s ! j;
             s' = s\<lparr>jobs := (jobs s)[j := jb\<lparr>job_readers := removeAll i (job_readers jb)\<rparr>]\<rparr>
         in case map_of reader_properties (handler_property re) of
              None \<Rightarrow> (None, s')
            | Some h \<Rightarrow> run_handler E h j i re s')
      else (None, s))"

section \<open>submitRequest and the buffer\<close>

definition stamp_success :: "params \<Rightarrow> params" where
  "stamp_success p = p\<lparr>entries := AList.update ''success'' (JBool True) (entries p)\<rparr>"

text \<open>
  The \<^verbatim>\<open>catch\<close> block: \<open>local\<close> is the value the variable \<^verbatim>\<open>params\<close> holds when
  the exception arrives (the JSON text once it has been reassigned).
\<close>

definition submit_catch :: "env \<Rightarrow> exn \<Rightarrow> payload \<Rightarrow> state \<Rightarrow> state result" where
  "submit_catch E e local s =
     (case local of
        PObject q \<Rightarrow>
          if hasFile q then postAsArrayBuffer E q (s\<lparr>hasFileSerializationBug := True\<rparr>)
          else (Some e, s)
      | PJson q \<Rightarrow> (Some e, s))"

text \<open>
  The \<^verbatim>\<open>try\<close> block: reassign \<^verbatim>\<open>params\<close> (to the JSON text when the channel only
  carries strings), assign \<^verbatim>\<open>params.success = true\<close>, post.
\<close>

definition submit_direct :: "env \<Rightarrow> params \<Rightarrow> state \<Rightarrow> state result" where
  "submit_direct E p s =
     (if postStrings E then
        (if strict E then submit_catch E TypeError (PJson p) s
         else (case postMessage E (PJson p) s of
                 (Some e, s') \<Rightarrow> submit_catch E e (PJson p) s'
               | (None, s') \<Rightarrow> (None, s')))
      else
        (case postMessage E (PObject (stamp_success p)) s of
           (Some e, s') \<Rightarrow> submit_catch E e (PObject (stamp_success p)) s'
         | (None, s') \<Rightarrow> (None, s')))"

definition submitRequest :: "env \<Rightarrow> params \<Rightarrow> state \<Rightarrow> state result" where
  "submitRequest E p s0 =
     (let s = s0\<lparr>effects := effects s0 @ [Submitted p]\<rparr> in
      if hasFileSerializationBug s \<and> hasFile p then postAsArrayBuffer E p s
      else submit_direct E p s)"

fun flush :: "env \<Rightarrow> params list \<Rightarrow> state \<Rightarrow> state result" where
  "flush E [] s = (None, s)"
| "flush E (p # ps) s =
     (case submitRequest E p s of
        (Some e, s') \<Rightarrow> (Some e, s')
      | (None, s') \<Rightarrow> flush E ps s')"

definition onload :: "env \<Rightarrow> state \<Rightarrow> state result" where
  "onload E s0 =
     (let s = s0\<lparr>loaded := True\<rparr> in
      case buffered s of
        None \<Rightarrow> (None, s)
      | Some q \<Rightarrow>
          (case flush E q s of
             (Some e, s') \<Rightarrow> (Some e, s')
           | (None, s') \<Rightarrow> (None, s'\<lparr>buffered := None\<rparr>)))"

section \<open>The inbound dispatcher\<close>

text \<open>A property read on a value already known to be neither \<^verbatim>\<open>null\<close> nor
  \<^verbatim>\<open>undefined\<close>.\<close>

definition read_prop :: "jsval \<Rightarrow> string \<Rightarrow> jsval" where
  "read_prop v k = (case get_prop v k of None \<Rightarrow> JUndefined | Some x \<Rightarrow> x)"

text \<open>
  The registry is a plain object, \<^verbatim>\<open>{}\<close>. The read \<^verbatim>\<open>requests[k]\<close> finds the
  handle stored under \<open>k\<close>; for a name that is not stored it finds what every object
  inherits from \<^verbatim>\<open>Object.prototype\<close> under that name, if anything.
\<close>

definition inherited_names :: "string list" where
  "inherited_names =
     [''constructor'', ''hasOwnProperty'', ''isPrototypeOf'', ''propertyIsEnumerable'',
      ''toLocaleString'', ''toString'', ''valueOf'', ''__defineGetter__'',
      ''__defineSetter__'', ''__lookupGetter__'', ''__lookupSetter__'', ''__proto__'']"

datatype found =
    Stored nat
  | Inherited
  | Nothing

definition registry_read :: "state \<Rightarrow> string \<Rightarrow> found" where
  "registry_read s k =
     (case requests s k of
        Some r \<Rightarrow> Stored r
      | None \<Rightarrow> if k \<in> set inherited_names then Inherited else Nothing)"

text \<open>
  \<^verbatim>\<open>onprogress\<close>. An inherited member is truthy (a function, or
  \<^verbatim>\<open>Object.prototype\<close> itself), so the \<^verbatim>\<open>if ( xhr )\<close> test lets it through; it
  has no \<^verbatim>\<open>upload\<close> and no \<^verbatim>\<open>dispatchEvent\<close>, so
  \<^verbatim>\<open>target.dispatchEvent( prog )\<close> throws a TypeError on either target.
\<close>

definition onprogress :: "env \<Rightarrow> jsval \<Rightarrow> state \<Rightarrow> state result" where
  "onprogress E data s =
     (case get_prop data ''callbackId'' of
        None \<Rightarrow> (Some TypeError, s)
      | Some cid \<Rightarrow>
          (case registry_read s (to_string cid) of
             Nothing \<Rightarrow> (None, s)
           | Inherited \<Rightarrow> (Some TypeError, s)
           | Stored r \<Rightarrow>
               dispatchEvent (if truthy (read_prop data ''upload'') then Upload r else Handle r)
                 (Progress data) s))"

definition decode :: "env \<Rightarrow> jsval \<Rightarrow> jsval option" where
  "decode E data =
     (if postStrings E then (case data of JStr t \<Rightarrow> JSON_parse E t | _ \<Rightarrow> Some data)
      else Some data)"

text \<open>\<^verbatim>\<open>null == statusCode || 2 === Math.floor(statusCode / 100)\<close>\<close>

definition is_success :: "env \<Rightarrow> jsval \<Rightarrow> bool" where
  "is_success E statusCode =
     (statusCode = JNull \<or> statusCode = JUndefined \<or>
      (case to_number E statusCode of None \<Rightarrow> False | Some n \<Rightarrow> n div 100 = 2))"

text \<open>
  The failure object: \<^verbatim>\<open>new Error()\<close>, then \<^verbatim>\<open>statusCode\<close>, then every property
  of the body in turn, then the derived \<^verbatim>\<open>name\<close>. It is given as the object of
  the properties assigned to it (an Error's own \<^verbatim>\<open>name\<close> and \<^verbatim>\<open>message\<close> come
  from its prototype until one is assigned). The assignment \<^verbatim>\<open>err[i] = v\<close> sets
  the property \<open>i\<close>, except under the name \<^verbatim>\<open>__proto__\<close>: that one goes to the
  prototype setter and gives the object no property.
\<close>

definition assign :: "(string \<times> jsval) list \<Rightarrow> string \<Rightarrow> jsval \<Rightarrow> (string \<times> jsval) list" where
  "assign obj k v = (if k = ''__proto__'' then obj else AList.update k v obj)"

definition copy_props :: "(string \<times> jsval) list \<Rightarrow> (string \<times> jsval) list \<Rightarrow> (string \<times> jsval) list" where
  "copy_props err ps = foldl (\<lambda>e kv. assign e (fst kv) (snd kv)) err ps"

definition make_error :: "jsval \<Rightarrow> jsval \<Rightarrow> exn + jsval" where
  "make_error statusCode body =
     (let err = copy_props [(''statusCode'', statusCode)] (own_enumerable body) in
      case get_prop body ''error'' of
        None \<Rightarrow> Inl TypeError
      | Some ev \<Rightarrow>
          Inr (JObj (if truthy ev then assign err ''name'' (JStr (toTitle ev @ ''Error''))
                     else err)))"

text \<open>\<^verbatim>\<open>if ( body && headers ) { body._headers = headers; }\<close>\<close>

definition attach_headers :: "env \<Rightarrow> jsval \<Rightarrow> jsval \<Rightarrow> exn + jsval" where
  "attach_headers E body headers =
     (if truthy body \<and> truthy headers then set_prop (strict E) body ''_headers'' headers
      else Inr body)"

text \<open>The rest of \<^verbatim>\<open>onmessage\<close> once the handle \<open>r\<close> has been taken out of the
  registry.\<close>

definition deliver :: "env \<Rightarrow> nat \<Rightarrow> jsval \<Rightarrow> state \<Rightarrow> state result" where
  "deliver E r data s =
     (let body = get_index data (Some 0);
          statusCode = get_index data (Some 1);
          headers = get_index data (Some 2)
      in case attach_headers E body headers of
           Inl e \<Rightarrow> (Some e, s)
         | Inr body' \<Rightarrow>
             if is_success E statusCode then resolve (Handle r) body' s
             else (case make_error statusCode body' of
                     Inl e \<Rightarrow> (Some e, s)
                   | Inr err \<Rightarrow> reject (Handle r) err s))"

text \<open>\<^verbatim>\<open>data[data.length - 1]\<close> as a key of the registry.\<close>

definition reply_id :: "env \<Rightarrow> jsval \<Rightarrow> string" where
  "reply_id E data =
     to_string (get_index data (map_option (\<lambda>n. n - 1) (to_number E (read_prop data ''length''))))"

definition onmessage :: "env \<Rightarrow> string \<Rightarrow> jsval \<Rightarrow> state \<Rightarrow> state result" where
  "onmessage E origin data0 s =
     (if origin \<noteq> proxyOrigin then (None, s)
      else if \<not> truthy data0 then (None, s)
      else
        (case decode E data0 of
           None \<Rightarrow> (Some SyntaxError, s)
         | Some data \<Rightarrow>
             (case get_prop data ''upload'' of
                None \<Rightarrow> (Some TypeError, s)
              | Some up \<Rightarrow>
                  if truthy up \<or> truthy (read_prop data ''download'') then onprogress E data s
                  else if \<not> truthy (read_prop data ''length'') then (None, s)
                  else
                    (case requests s (reply_id E data) of
                       None \<Rightarrow> (None, s)
                     | Some r \<Rightarrow>
                         deliver E r data
                           (s\<lparr>requests := (requests s)(reply_id E data := None)\<rparr>)))))"

section \<open>install and request\<close>

definition install :: "state \<Rightarrow> state" where
  "install s = s\<lparr>buffered := Some [], iframe := True\<rparr>"

datatype req_arg =
    Path string
  | Params params

text \<open>A bare path string stands for \<^verbatim>\<open>{ path: params }\<close>.\<close>

definition as_params :: "req_arg \<Rightarrow> params" where
  "as_params arg =
     (case arg of
        Path path \<Rightarrow> \<lparr> entries = [(''path'', JStr path)], formData = None \<rparr>
      | Params q \<Rightarrow> q)"

text \<open>\<^verbatim>\<open>String(params.method || 'GET').toUpperCase()\<close>\<close>

definition method_of :: "params \<Rightarrow> string" where
  "method_of p =
     map upper (to_string (if truthy (lookup (entries p) ''method'')
                           then lookup (entries p) ''method'' else JStr ''GET''))"

definition prepare :: "env \<Rightarrow> string \<Rightarrow> params \<Rightarrow> params" where
  "prepare E ident p =
     p\<lparr>entries :=
         AList.update ''method'' (JStr (method_of p))
           (AList.update ''supports_progress'' (JBool (supportsProgress E))
             (AList.update ''supports_args'' (JBool True)
               (AList.update ''callback'' (JStr ident) (entries p))))\<rparr>"

text \<open>
  \<open>fn\<close> says whether a callback function was passed. The handle returned is the
  new last cell of the heap, \<open>length (heap s)\<close> before the call.
\<close>

definition request :: "env \<Rightarrow> req_arg \<Rightarrow> bool \<Rightarrow> state \<Rightarrow> state result" where
  "request E arg fn s0 =
     (let p0 = as_params arg;
          s1 = (if iframe s0 then s0 else install s0);
          ident = uid E (uid_calls s1);
          p = prepare E ident p0;
          s2 = s1\<lparr> uid_calls := uid_calls s1 + 1,
                   heap := heap s1 @ [\<lparr> xhr_params = p, has_fn = fn, called = False \<rparr>],
                   requests := (requests s1)(ident \<mapsto> length (heap s1)) \<rparr>
      in if loaded s2 then submitRequest E p s2
         else (case buffered s2 of
                 None \<Rightarrow> (Some TypeError, s2)
               | Some q \<Rightarrow> (None, s2\<lparr>buffered := Some (q @ [p])\<rparr>)))"

section \<open>The module as an event-driven machine\<close>

text \<open>
  Everything runs in callbacks, one at a time: a call of \<^verbatim>\<open>request\<close>, the iframe's
  "load" event, a "message" event on the window, a "load", "error" or "abort" event
  some other code dispatches on a handle, a reader finishing or failing. The two
  listeners of \<^verbatim>\<open>install\<close> exist only once it has run. An exception ends the
  callback it is thrown in and leaves the state as it was at that point.
\<close>

datatype input =
    Request req_arg bool
  | IframeLoad
  | Message string jsval
  | Notify nat event
  | Reader nat nat reader_event

definition step :: "env \<Rightarrow> input \<Rightarrow> state \<Rightarrow> state result" where
  "step E inp s =
     (case inp of
        Request arg fn \<Rightarrow> request E arg fn s
      | IframeLoad \<Rightarrow> if iframe s then onload E s else (None, s)
      | Message origin data \<Rightarrow> if iframe s then onmessage E origin data s else (None, s)
      | Notify r ev \<Rightarrow> (None, fire r ev s)
      | Reader j i re \<Rightarrow> reader_fires E j i re s)"

fun run :: "env \<Rightarrow> input list \<Rightarrow> state \<Rightarrow> state" where
  "run E [] s = s"
| "run E (inp # inps) s = run E inps (snd (step E inp s))"

section \<open>Observations on the state\<close>

text \<open>The payload the \<^verbatim>\<open>try\<close> block of \<^verbatim>\<open>submitRequest\<close> hands to the channel.\<close>

definition direct_payload :: "env \<Rightarrow> params \<Rightarrow> payload" where
  "direct_payload E p = (if postStrings E then PJson p else PObject (stamp_success p))"

text \<open>The parameters the \<open>k\<close>-th call of \<^verbatim>\<open>request\<close> registers and submits.\<close>

definition call_params :: "env \<Rightarrow> nat \<Rightarrow> req_arg \<Rightarrow> params" where
  "call_params E k arg = prepare E (uid E k) (as_params arg)"

text \<open>The events dispatched on handle \<open>r\<close>, in order.\<close>

definition handle_event :: "nat \<Rightarrow> effect \<Rightarrow> event option" where
  "handle_event r eff =
     (case eff of
        Dispatched t ev \<Rightarrow> (case t of Handle r' \<Rightarrow> if r' = r then Some ev else None | _ \<Rightarrow> None)
      | _ \<Rightarrow> None)"

definition handle_events :: "nat \<Rightarrow> state \<Rightarrow> event list" where
  "handle_events r s = List.map_filter (handle_event r) (effects s)"

text \<open>
  \<open>posts s s'\<close>: from \<open>s\<close> to \<open>s'\<close> the module has only posted payloads, started
  or advanced readers and set the defect flag.
\<close>

definition is_posted :: "effect \<Rightarrow> bool" where
  "is_posted eff = (case eff of Posted pl \<Rightarrow> True | _ \<Rightarrow> False)"

definition posts :: "state \<Rightarrow> state \<Rightarrow> bool" where
  "posts s s' =
     (iframe s' = iframe s \<and> loaded s' = loaded s \<and> buffered s' = buffered s \<and>
      requests s' = requests s \<and> heap s' = heap s \<and> uid_calls s' = uid_calls s \<and>
      (\<exists>es. effects s' = effects s @ es \<and> list_all is_posted es))"

text \<open>
  The terminal events are "load" and "error": \<open>deliveries r s\<close> counts those the module
  has dispatched on handle \<open>r\<close>, \<open>callbacks r s\<close> the calls of the callback function
  passed with the call that created handle \<open>r\<close>.
\<close>

definition terminal :: "event \<Rightarrow> bool" where
  "terminal ev = (case ev of Load body \<Rightarrow> True | Error e \<Rightarrow> True | _ \<Rightarrow> False)"





text \<open>
  The reply body as \<^verbatim>\<open>onmessage\<close> passes it on: an object or an array has taken
  the headers as its \<^verbatim>\<open>_headers\<close> property when the headers are truthy; any other
  body is as it came.
\<close>

fun is_object :: "jsval \<Rightarrow> bool" where
  "is_object (JObj fs) = True"
| "is_object (JArr xs ps) = True"
| "is_object v = False"

definition with_headers :: "jsval \<Rightarrow> jsval \<Rightarrow> jsval" where
  "with_headers body headers =
     (if truthy headers then
        (case body of
           JObj fs \<Rightarrow> JObj (AList.update ''_headers'' headers fs)
         | JArr xs ps \<Rightarrow> JArr xs (AList.update ''_headers'' headers ps)
         | _ \<Rightarrow> body)
      else body)"

text \<open>
  Title-casing said in words, on character codes: a value that is not a string gives
  the empty string; in a string, an underscore that stands right before a lower-case
  letter (code 97 to 122) is dropped, a lower-case letter that starts the string or
  stands right after an underscore is replaced by its upper-case letter (32 below),
  and every other character stays. \<open>prev\<close> is the character before the current one.
\<close>

definition ascii_lower :: "char \<Rightarrow> bool" where
  "ascii_lower c = (97 \<le> (of_char c :: nat) \<and> (of_char c :: nat) \<le> 122)"

definition ascii_upper :: "char \<Rightarrow> char" where
  "ascii_upper c = char_of ((of_char c :: nat) - 32)"

fun title_from :: "char option \<Rightarrow> string \<Rightarrow> string" where
  "title_from prev [] = []"
| "title_from prev (c # cs) =
     (if c = CHR ''_'' \<and> cs \<noteq> [] \<and> ascii_lower (hd cs) then title_from (Some c) cs
      else if ascii_lower c \<and> (prev = None \<or> prev = Some (CHR ''_''))
        then ascii_upper c # title_from (Some c) cs
      else c # title_from (Some c) cs)"

definition title_words :: "jsval \<Rightarrow> string" where
  "title_words v = (case v of JStr s \<Rightarrow> title_from None s | _ \<Rightarrow> [])"

text \<open>Every underscore of the string stands right before a lower-case letter.\<close>

fun underscores_before_lower :: "string \<Rightarrow> bool" where
  "underscores_before_lower [] = True"
| "underscores_before_lower [c] = (c \<noteq> CHR ''_'')"
| "underscores_before_lower (c # d # cs) =
     ((c \<noteq> CHR ''_'' \<or> is_lower d) \<and> underscores_before_lower (d # cs))"

section \<open>Environments, parameters and runs used as instances\<close>

text \<open>
  A current browser: structured clone, strict mode, a channel that accepts every
  payload. The collaborators that play no part in the instances are trivial.
\<close>

definition modern :: env where
  "modern = \<lparr> postStrings = False, strict = True, supportsProgress = True,
               uid = (\<lambda>n. ''id'' @ show_nat n), JSON_parse = (\<lambda>t. None),
               string_to_number = (\<lambda>t. None), postMessage_throws = (\<lambda>pl. None) \<rparr>"

text \<open>The same browser running the script outside strict mode.\<close>

definition sloppy :: env where
  "sloppy = modern\<lparr>strict := False\<rparr>"

text \<open>A browser whose channel only carries strings and that has no strict mode.\<close>

definition strings_only :: env where
  "strings_only = modern\<lparr>postStrings := True, strict := False\<rparr>"

text \<open>A channel that throws on every payload.\<close>

definition refusing :: env where
  "refusing = modern\<lparr>postMessage_throws := (\<lambda>pl. Some (Thrown (JStr ''DataCloneError'')))\<rparr>"

text \<open>A channel with the File serialization bug: it throws on a parameter object that
  holds a \<^verbatim>\<open>File\<close>.\<close>

definition no_file_clone :: env where
  "no_file_clone =
     modern\<lparr>postMessage_throws :=
       (\<lambda>pl. if hasFile_local pl then Some (Thrown (JStr ''DataCloneError'')) else None)\<rparr>"

text \<open>
  A structured-clone channel: it throws on a parameter object that holds a value it
  cannot copy (a function, a DOM node), which an entry named \<^verbatim>\<open>uncloneable\<close> stands
  for here.
\<close>

definition cloning :: env where
  "cloning =
     modern\<lparr>postMessage_throws :=
       (\<lambda>pl. case pl of
               PObject p \<Rightarrow>
                 if map_of (entries p) ''uncloneable'' = None then None
                 else Some (Thrown (JStr ''DataCloneError''))
             | PJson p \<Rightarrow> None)\<rparr>"

definition me :: params where
  "me = \<lparr> entries = [(''path'', JStr ''/me'')], formData = None \<rparr>"

definition photo :: params where
  "photo = \<lparr> entries = [(''path'', JStr ''/sites/1/media/new''), (''method'', JStr ''post'')],
              formData = Some [(''media[]'', File ''a.png'' ''image/png'')] \<rparr>"

definition widget :: params where
  "widget = \<lparr> entries = [(''path'', JStr ''/widgets''), (''uncloneable'', JObj [])],
               formData = None \<rparr>"

text \<open>One call with a callback, sent once the iframe has loaded.\<close>

definition waiting :: state where
  "waiting = run modern [Request (Path ''/me'') True, IframeLoad] init"

text \<open>
  Two calls made before the iframe has loaded, on the structured-clone channel; the
  parameters of the first hold a value that cannot be cloned.
\<close>

definition stranded :: state where
  "stranded = run cloning [Request (Params widget) False, Request (Path ''/me'') True] init"

text \<open>A state reached with the refusing channel: one call buffered, then the iframe's
  "load" event, whose flush throws.\<close>

definition late :: state where
  "late = run refusing [Request (Path ''/a'') False, IframeLoad] init"

text \<open>An upload on the channel with the File serialization bug, after the iframe has
  loaded: the direct post has thrown and the reader of the one attachment is running.\<close>

definition uploading :: state where
  "uploading = run no_file_clone [Request (Params photo) True, IframeLoad] init"



section \<open>Basic facts about submitRequest\<close>

lemma hasFile_stamp_success [simp]: "hasFile (stamp_success p) = hasFile p"
  by (simp add: hasFile_def stamp_success_def)

lemma hasFile_prepare [simp]: "hasFile (prepare E ident p) = hasFile p"
  by (simp add: hasFile_def prepare_def)

lemma submitRequest_direct_throw:
  assumes "\<not> hasFile p" and "\<not> (postStrings E \<and> strict E)"
    and "postMessage_throws E (direct_payload E p) = Some e"
  shows "submitRequest E p s = (Some e, s\<lparr>effects := effects s @ [Submitted p]\<rparr>)"
  using assms
  by (auto simp add: submitRequest_def Let_def submit_direct_def submit_catch_def
      postMessage_def direct_payload_def)

lemma submit_direct_changes:
  "hasFileSerializationBug (snd (submit_direct E p s)) \<noteq> hasFileSerializationBug s \<or>
   jobs (snd (submit_direct E p s)) \<noteq> jobs s \<Longrightarrow> hasFile p"
  by (auto simp add: submit_direct_def submit_catch_def postMessage_def
      split: if_splits option.splits)

section \<open>Messages from another origin\<close>

text \<open>
  C7. A message whose origin is not the proxy origin changes nothing and throws
  nothing, whatever its data: \<^verbatim>\<open>onmessage\<close> returns at its first test, and so does the
  machine step that delivers the message.
\<close>

theorem C7_foreign_origin_ignored:
  "origin \<noteq> proxyOrigin \<Longrightarrow>
     onmessage E origin data s = (None, s) \<and> step E (Message origin data) s = (None, s)"
  by (simp add: onmessage_def step_def)

theorem C7_foreign_origin_ignored_witness:
  "''https://evil.example'' \<noteq> proxyOrigin \<and>
   onmessage modern ''https://evil.example'' (JArr [JNull, JNum 500, JNull, JStr ''id0''] [])
     (run modern [Request (Path ''/me'') True] init)
     = (None, run modern [Request (Path ''/me'') True] init) \<and>
   step modern (Message ''https://evil.example'' (JArr [JNull, JNum 500, JNull, JStr ''id0''] []))
     (run modern [Request (Path ''/me'') True] init)
     = (None, run modern [Request (Path ''/me'') True] init)"
proof -
  have ne: "''https://evil.example'' \<noteq> proxyOrigin"
    by (simp add: proxyOrigin_def)
  from C7_foreign_origin_ignored [OF ne] ne show ?thesis by blast
qed

section \<open>The success marker on the direct path\<close>

text \<open>
  C5. When the channel only carries strings, \<^verbatim>\<open>submitRequest\<close> serialises the
  parameters first and assigns \<^verbatim>\<open>success\<close> to the resulting string afterwards. In
  strict mode that assignment throws and nothing is posted; otherwise it is dropped and
  the channel receives the JSON text of the parameters as they were passed in, without
  the marker the assignment was meant to add.
\<close>

theorem C5_string_payload_serialised_before_stamp:
  assumes "postStrings E" and "\<not> (hasFileSerializationBug s \<and> hasFile p)"
  shows "submitRequest E p s =
           (if strict E then (Some TypeError, s\<lparr>effects := effects s @ [Submitted p]\<rparr>)
            else case postMessage_throws E (PJson p) of
                   Some e \<Rightarrow> (Some e, s\<lparr>effects := effects s @ [Submitted p]\<rparr>)
                 | None \<Rightarrow> (None, s\<lparr>effects := effects s @ [Submitted p, Posted (PJson p)]\<rparr>))"
proof -
  from assms(2) have "submitRequest E p s =
      submit_direct E p (s\<lparr>effects := effects s @ [Submitted p]\<rparr>)"
    by (auto simp add: submitRequest_def Let_def)
  with assms(1) show ?thesis
    by (simp add: submit_direct_def submit_catch_def postMessage_def split: option.splits)
qed

theorem C5_string_payload_serialised_before_stamp_witness:
  "postStrings strings_only \<and>
   \<not> (hasFileSerializationBug init \<and> hasFile (prepare strings_only ''id0'' me)) \<and>
   effects (snd (submitRequest strings_only (prepare strings_only ''id0'' me) init))
     = [Submitted (prepare strings_only ''id0'' me),
        Posted (PJson (prepare strings_only ''id0'' me))] \<and>
   \<not> has_success (PJson (prepare strings_only ''id0'' me))"
proof -
  have a: "postStrings strings_only"
    by (simp add: strings_only_def modern_def)
  have b: "\<not> (hasFileSerializationBug init \<and> hasFile (prepare strings_only ''id0'' me))"
    by (simp add: init_def)
  have c: "\<not> has_success (PJson (prepare strings_only ''id0'' me))"
    by (simp add: prepare_def me_def)
  have d: "\<not> strict strings_only"
    "postMessage_throws strings_only (PJson (prepare strings_only ''id0'' me)) = None"
    by (simp_all add: strings_only_def modern_def)
  from C5_string_payload_serialised_before_stamp [OF a b] a b c d
  show ?thesis by (simp add: init_def)
qed

section \<open>A transport exception that is not about attachments\<close>

text \<open>
  C8. When the channel throws on the payload of the direct path and the parameters hold
  no \<^verbatim>\<open>File\<close>, \<^verbatim>\<open>submitRequest\<close> ends with that same exception and has changed
  nothing (no flag, no reader started, nothing posted). And whenever
  \<^verbatim>\<open>submitRequest\<close> sets the defect flag or starts the readers of the fallback path,
  the parameters hold a \<^verbatim>\<open>File\<close>.
\<close>

theorem C8_unrelated_throw_propagates:
  "(\<not> hasFile p \<and> \<not> (postStrings E \<and> strict E) \<and>
      postMessage_throws E (direct_payload E p) = Some e \<longrightarrow>
      submitRequest E p s = (Some e, s\<lparr>effects := effects s @ [Submitted p]\<rparr>)) \<and>
   (hasFileSerializationBug (snd (submitRequest E p s)) \<noteq> hasFileSerializationBug s \<or>
      jobs (snd (submitRequest E p s)) \<noteq> jobs s \<longrightarrow> hasFile p)"
proof (intro conjI impI)
  assume "\<not> hasFile p \<and> \<not> (postStrings E \<and> strict E) \<and>
      postMessage_throws E (direct_payload E p) = Some e"
  then show "submitRequest E p s = (Some e, s\<lparr>effects := effects s @ [Submitted p]\<rparr>)"
    by (simp add: submitRequest_direct_throw)
next
  assume ch: "hasFileSerializationBug (snd (submitRequest E p s)) \<noteq> hasFileSerializationBug s \<or>
      jobs (snd (submitRequest E p s)) \<noteq> jobs s"
  show "hasFile p"
  proof (cases "hasFileSerializationBug s \<and> hasFile p")
    case True
    then show ?thesis by simp
  next
    case False
    then have "submitRequest E p s = submit_direct E p (s\<lparr>effects := effects s @ [Submitted p]\<rparr>)"
      by (auto simp add: submitRequest_def Let_def)
    with ch submit_direct_changes [of E p "s\<lparr>effects := effects s @ [Submitted p]\<rparr>"]
    show ?thesis by simp
  qed
qed

theorem C8_unrelated_throw_propagates_witness:
  "\<not> hasFile me \<and> \<not> (postStrings refusing \<and> strict refusing) \<and>
   postMessage_throws refusing (direct_payload refusing me) = Some (Thrown (JStr ''DataCloneError'')) \<and>
   submitRequest refusing me init =
     (Some (Thrown (JStr ''DataCloneError'')), init\<lparr>effects := effects init @ [Submitted me]\<rparr>) \<and>
   hasFileSerializationBug (snd (submitRequest no_file_clone photo init)) \<noteq> hasFileSerializationBug init \<and>
   hasFile photo"
proof -
  have a: "\<not> hasFile me" by (simp add: hasFile_def me_def)
  have b: "\<not> (postStrings refusing \<and> strict refusing)"
    by (simp add: refusing_def modern_def)
  have c: "postMessage_throws refusing (direct_payload refusing me) = Some (Thrown (JStr ''DataCloneError''))"
    by (simp add: refusing_def modern_def)
  have d: "hasFileSerializationBug (snd (submitRequest no_file_clone photo init)) \<noteq> hasFileSerializationBug init"
    by (simp add: submitRequest_def submit_direct_def submit_catch_def postMessage_def
        postAsArrayBuffer_def file_indices_def no_file_clone_def modern_def init_def photo_def
        hasFile_def stamp_success_def Let_def)
  from C8_unrelated_throw_propagates [of me refusing "Thrown (JStr ''DataCloneError'')" init]
    C8_unrelated_throw_propagates [of photo no_file_clone TypeError init] a b c d
  show ?thesis by blast
qed

section \<open>The registration is not rolled back\<close>

text \<open>
  C10. A call made once the iframe is loaded, whose parameters hold no \<^verbatim>\<open>File\<close> and
  on whose payload the channel throws, ends with that exception; its token is still in
  the registry, bound to the handle the call created, and a later reply that carries the
  token is dispatched to that handle (and to the callback, when one was passed).
\<close>

theorem C10_registration_survives_throw:
  assumes "loaded s" and "\<not> hasFile (as_params arg)" and "\<not> (postStrings E \<and> strict E)"
    and "postMessage_throws E
           (direct_payload E (prepare E (uid E (uid_calls s)) (as_params arg))) = Some e"
  shows "fst (request E arg fn s) = Some e \<and>
         requests (snd (request E arg fn s)) (uid E (uid_calls s)) = Some (length (heap s)) \<and>
         effects (snd (onmessage E proxyOrigin
                    (JArr [body, JNum 200, JNull, JStr (uid E (uid_calls s))] [])
                    (snd (request E arg fn s)))) =
           effects (snd (request E arg fn s)) @
             Dispatched (Handle (length (heap s))) (Load body) #
               (if fn then [Callback (length (heap s)) None (onLoad_arg body)] else [])"
proof -
  define ident where "ident = uid E (uid_calls s)"
  define p where "p = prepare E ident (as_params arg)"
  define s1 where "s1 = (if iframe s then s else install s)"
  define s2 where "s2 = s1\<lparr> uid_calls := uid_calls s1 + 1,
                   heap := heap s1 @ [\<lparr> xhr_params = p, has_fn = fn, called = False \<rparr>],
                   requests := (requests s1)(ident \<mapsto> length (heap s1)) \<rparr>"
  have s1: "uid_calls s1 = uid_calls s" "heap s1 = heap s" "loaded s1"
    using assms(1) by (simp_all add: s1_def install_def)
  have req: "request E arg fn s = submitRequest E p s2"
    using s1 by (simp add: request_def Let_def s2_def s1_def [symmetric] p_def ident_def)
  have thr: "submitRequest E p s2 = (Some e, s2\<lparr>effects := effects s2 @ [Submitted p]\<rparr>)"
    using assms(2-4) by (intro submitRequest_direct_throw) (simp_all add: p_def ident_def)
  let ?s3 = "s2\<lparr>effects := effects s2 @ [Submitted p]\<rparr>"
  have r3: "requests ?s3 ident = Some (length (heap s))"
    by (simp add: s2_def s1)
  have h3: "heap ?s3 = heap s @ [\<lparr> xhr_params = p, has_fn = fn, called = False \<rparr>]"
    by (simp add: s2_def s1)
  have msg: "effects (snd (onmessage E proxyOrigin (JArr [body, JNum 200, JNull, JStr ident] []) ?s3)) =
      effects ?s3 @ Dispatched (Handle (length (heap s))) (Load body) #
               (if fn then [Callback (length (heap s)) None (onLoad_arg body)] else [])"
    using r3 h3
    by (simp add: onmessage_def decode_def read_prop_def lookup_def reply_id_def deliver_def
        attach_headers_def is_success_def resolve_def dispatchEvent_def fire_def listener_effect_def Let_def
        nth_append)
  from req thr r3 msg show ?thesis by (simp add: ident_def)
qed

theorem C10_registration_survives_throw_witness:
  "loaded late \<and> \<not> hasFile (as_params (Path ''/me'')) \<and>
   \<not> (postStrings refusing \<and> strict refusing) \<and>
   fst (request refusing (Path ''/me'') True late) = Some (Thrown (JStr ''DataCloneError'')) \<and>
   requests (snd (request refusing (Path ''/me'') True late)) ''id1'' = Some 1 \<and>
   effects (snd (onmessage refusing proxyOrigin
                    (JArr [JStr ''hello'', JNum 200, JNull, JStr ''id1''] [])
                    (snd (request refusing (Path ''/me'') True late)))) =
           effects (snd (request refusing (Path ''/me'') True late)) @
             [Dispatched (Handle 1) (Load (JStr ''hello'')), Callback 1 None (JStr ''hello'')]"
proof -
  have a: "loaded late"
    unfolding late_def by code_simp
  have b: "\<not> hasFile (as_params (Path ''/me''))"
    by code_simp
  have c: "\<not> (postStrings refusing \<and> strict refusing)"
    by code_simp
  have d: "postMessage_throws refusing
             (direct_payload refusing
               (prepare refusing (uid refusing (uid_calls late)) (as_params (Path ''/me''))))
           = Some (Thrown (JStr ''DataCloneError''))"
    by (simp add: refusing_def modern_def)
  have e: "uid refusing (uid_calls late) = ''id1''"
    unfolding late_def by code_simp
  have f: "length (heap late) = 1"
    unfolding late_def by code_simp
  from C10_registration_survives_throw [OF a b c d, of True "JStr ''hello''"] a b c
  show ?thesis by (simp add: e f onLoad_arg_def)
qed

section \<open>Basic facts about the inbound dispatcher\<close>

lemma reply_id_array:
  "xs \<noteq> [] \<Longrightarrow> reply_id E (JArr xs ps) = to_string (last xs)"
  by (simp add: reply_id_def read_prop_def last_conv_nth nat_diff_distrib')

lemma onmessage_reply:
  assumes "truthy data0" and "decode E data0 = Some (JArr xs [])" and "xs \<noteq> []"
  shows "onmessage E proxyOrigin data0 s =
     (case requests s (to_string (last xs)) of
        None \<Rightarrow> (None, s)
      | Some r \<Rightarrow> deliver E r (JArr xs []) (s\<lparr>requests := (requests s)(to_string (last xs) := None)\<rparr>))"
  using assms
  by (simp add: onmessage_def reply_id_array read_prop_def lookup_def split: option.splits)

lemma is_success_num: "is_success E (JNum n) \<longleftrightarrow> 200 \<le> n \<and> n \<le> 299"
  by (auto simp add: is_success_def)

lemma map_of_rev_distinct:
  "distinct (map fst ps) \<Longrightarrow> map_of (rev ps) = map_of ps"
proof (induction ps)
  case Nil
  then show ?case by simp
next
  case (Cons x ps)
  then have "fst x \<notin> dom (map_of ps)"
    by (simp add: dom_map_of_conv_image_fst)
  then have "map_of ps (fst x) = None" by blast
  with Cons show ?case
    by (cases x) (auto simp add: fun_eq_iff map_add_def split: option.splits)
qed

lemma map_of_copy_props:
  "map_of (copy_props err ps) k =
     (if k = ''__proto__'' then map_of err k else (map_of err ++ map_of (rev ps)) k)"
proof (induction ps arbitrary: err)
  case Nil
  then show ?case by (simp add: copy_props_def)
next
  case (Cons x ps)
  have "copy_props err (x # ps) = copy_props (assign err (fst x) (snd x)) ps"
    by (simp add: copy_props_def)
  then show ?case
    using Cons [of "assign err (fst x) (snd x)"]
    by (cases x) (auto simp add: assign_def AList.update_conv' map_add_def split: option.splits)
qed

lemma get_prop_read_prop:
  "body \<noteq> JNull \<Longrightarrow> body \<noteq> JUndefined \<Longrightarrow> get_prop body k = Some (read_prop body k)"
  by (cases body) (simp_all add: read_prop_def)

lemma make_error_obj:
  assumes "body \<noteq> JNull" and "body \<noteq> JUndefined"
    and "distinct (map fst (own_enumerable body))"
  shows "\<exists>err. make_error (JNum n) body = Inr (JObj err) \<and>
     (\<forall>k. map_of err k =
        (if k = ''name'' \<and> truthy (read_prop body ''error'')
         then Some (JStr (toTitle (read_prop body ''error'') @ ''Error''))
         else if k \<noteq> ''__proto__'' \<and> k \<in> fst ` set (own_enumerable body)
         then map_of (own_enumerable body) k
         else if k = ''statusCode'' then Some (JNum n) else None))"
proof -
  let ?ps = "own_enumerable body"
  let ?base = "copy_props [(''statusCode'', JNum n)] ?ps"
  have base: "map_of ?base k = (if k \<noteq> ''__proto__'' \<and> k \<in> fst ` set ?ps then map_of ?ps k
         else if k = ''statusCode'' then Some (JNum n) else None)" for k
  proof (cases "map_of ?ps k")
    case None
    then have "k \<notin> fst ` set ?ps" by (simp add: map_of_eq_None_iff)
    with None assms(3) show ?thesis
      by (auto simp add: map_of_copy_props map_of_rev_distinct map_add_def)
  next
    case (Some v)
    then have "k \<in> fst ` set ?ps" by (metis map_of_eq_None_iff option.distinct(1))
    with Some assms(3) show ?thesis
      by (auto simp add: map_of_copy_props map_of_rev_distinct map_add_def)
  qed
  from assms(1,2) show ?thesis
    by (simp add: make_error_def Let_def get_prop_read_prop assign_def AList.update_conv' base)
qed

lemma make_error_name:
  assumes "truthy (read_prop body ''error'')"
  shows "\<exists>err. make_error statusCode body = Inr (JObj err) \<and>
     map_of err ''name'' = Some (JStr (toTitle (read_prop body ''error'') @ ''Error''))"
proof -
  from assms have "body \<noteq> JNull" "body \<noteq> JUndefined"
    by (auto simp add: read_prop_def)
  with assms show ?thesis
    by (simp add: make_error_def Let_def get_prop_read_prop assign_def AList.update_conv')
qed

lemma attach_headers_with:
  "\<not> (strict E \<and> truthy headers \<and> truthy body \<and> \<not> is_object body) \<Longrightarrow>
     attach_headers E body headers = Inr (with_headers body headers)"
  by (cases body) (auto simp add: attach_headers_def with_headers_def)

lemma with_headers_error:
  "read_prop (with_headers body headers) ''error'' = read_prop body ''error''"
  by (cases body) (simp_all add: with_headers_def read_prop_def lookup_def AList.update_conv')

lemma error_needs_object: "truthy (read_prop body ''error'') \<Longrightarrow> is_object body"
  by (cases body) (simp_all add: read_prop_def)

lemma deliver_parts:
  "deliver E r (JArr (body # statusCode # headers # rest) []) s =
     (case attach_headers E body headers of
        Inl e \<Rightarrow> (Some e, s)
      | Inr body' \<Rightarrow>
          if is_success E statusCode then resolve (Handle r) body' s
          else (case make_error statusCode body' of
                  Inl e \<Rightarrow> (Some e, s)
                | Inr err \<Rightarrow> reject (Handle r) err s))"
  by (simp add: deliver_def Let_def)

lemma onmessage_classified:
  assumes "truthy data0"
    and "decode E data0 = Some (JArr (body # statusCode # headers # rest) [])"
    and "rest \<noteq> []"
    and "requests s (to_string (last rest)) = Some r"
    and "\<not> (strict E \<and> truthy headers \<and> truthy body \<and> \<not> is_object body)"
  shows "onmessage E proxyOrigin data0 s =
      (if is_success E statusCode
       then resolve (Handle r) (with_headers body headers)
              (s\<lparr>requests := (requests s)(to_string (last rest) := None)\<rparr>)
       else (case make_error statusCode (with_headers body headers) of
               Inl e \<Rightarrow> (Some e, s\<lparr>requests := (requests s)(to_string (last rest) := None)\<rparr>)
             | Inr err \<Rightarrow>
                 reject (Handle r) err
                   (s\<lparr>requests := (requests s)(to_string (last rest) := None)\<rparr>)))"
  using onmessage_reply [OF assms(1,2), of s] assms(3,4) attach_headers_with [OF assms(5)]
  by (simp add: deliver_parts)

lemma map_filter_append:
  "List.map_filter f (xs @ ys) = List.map_filter f xs @ List.map_filter f ys"
  by (simp add: List.map_filter_def)

lemma handle_events_fire: "handle_events r' (fire r ev s) = handle_events r' s"
  by (auto simp add: fire_def handle_events_def map_filter_append List.map_filter_def
      listener_effect_def handle_event_def split: option.splits event.splits)

lemma handle_events_dispatch:
  "fst (dispatchEvent (Handle r) ev (s\<lparr>requests := m\<rparr>)) = None \<and>
   handle_events r (snd (dispatchEvent (Handle r) ev (s\<lparr>requests := m\<rparr>))) =
     handle_events r s @ [ev]"
  by (simp add: dispatchEvent_def handle_events_fire)
     (simp add: handle_events_def map_filter_append List.map_filter_def handle_event_def)

lemma waiting_id0: "requests waiting ''id0'' = Some 0"
  unfolding waiting_def by code_simp

section \<open>Progress notifications\<close>

text \<open>
  C9. A message that decodes to an object with a truthy \<^verbatim>\<open>upload\<close> or
  \<^verbatim>\<open>download\<close> property is a progress notification. When its \<^verbatim>\<open>callbackId\<close> is
  stored in the registry, one "progress" event is dispatched, on the upload target of
  the handle when \<^verbatim>\<open>upload\<close> is truthy and on the handle itself otherwise. When it is
  not stored, nothing happens, except for a \<^verbatim>\<open>callbackId\<close> that names a member every
  object inherits (\<^verbatim>\<open>toString\<close>, \<^verbatim>\<open>constructor\<close>, ...): the read of the registry
  finds that member, the test lets it through, and the dispatch on it throws a
  TypeError. In every case the registry is left as it was.
\<close>

theorem C9_progress_routing:
  assumes "truthy data0" and "decode E data0 = Some (JObj fs)"
    and "truthy (lookup fs ''upload'') \<or> truthy (lookup fs ''download'')"
  shows "onmessage E proxyOrigin data0 s =
     (case requests s (to_string (lookup fs ''callbackId'')) of
        Some r \<Rightarrow>
          (None, s\<lparr>effects := effects s @
                    [Dispatched (if truthy (lookup fs ''upload'') then Upload r else Handle r)
                       (Progress (JObj fs))]\<rparr>)
      | None \<Rightarrow>
          if to_string (lookup fs ''callbackId'') \<in> set inherited_names
          then (Some TypeError, s) else (None, s))
     \<and> requests (snd (onmessage E proxyOrigin data0 s)) = requests s"
  using assms
  by (auto simp add: onmessage_def onprogress_def registry_read_def read_prop_def
      dispatchEvent_def fire_def listener_effect_def split: option.splits)

theorem C9_progress_routing_witness:
  "truthy (JObj [(''upload'', JBool True), (''callbackId'', JStr ''toString'')]) \<and>
   requests waiting ''toString'' = None \<and>
   onmessage modern proxyOrigin
     (JObj [(''upload'', JBool True), (''callbackId'', JStr ''toString'')]) waiting =
     (Some TypeError, waiting) \<and>
   onmessage modern proxyOrigin
     (JObj [(''download'', JBool True), (''callbackId'', JStr ''constructor'')]) waiting =
     (Some TypeError, waiting) \<and>
   onmessage modern proxyOrigin
     (JObj [(''upload'', JBool True), (''callbackId'', JStr ''nobody'')]) waiting =
     (None, waiting) \<and>
   onmessage modern proxyOrigin
     (JObj [(''upload'', JBool True), (''callbackId'', JStr ''id0''),
            (''loaded'', JNum 10), (''total'', JNum 100)]) waiting =
     (None, waiting\<lparr>effects := effects waiting @
        [Dispatched (Upload 0)
           (Progress (JObj [(''upload'', JBool True), (''callbackId'', JStr ''id0''),
                            (''loaded'', JNum 10), (''total'', JNum 100)]))]\<rparr>) \<and>
   onmessage modern proxyOrigin
     (JObj [(''download'', JBool True), (''callbackId'', JStr ''id0'')]) waiting =
     (None, waiting\<lparr>effects := effects waiting @
        [Dispatched (Handle 0)
           (Progress (JObj [(''download'', JBool True), (''callbackId'', JStr ''id0'')]))]\<rparr>) \<and>
   requests (snd (onmessage modern proxyOrigin
     (JObj [(''upload'', JBool True), (''callbackId'', JStr ''id0''),
            (''loaded'', JNum 10), (''total'', JNum 100)]) waiting)) = requests waiting"
proof -
  let ?up = "[(''upload'', JBool True), (''callbackId'', JStr ''id0''),
              (''loaded'', JNum 10), (''total'', JNum 100)]"
  let ?down = "[(''download'', JBool True), (''callbackId'', JStr ''id0'')]"
  let ?stray = "[(''upload'', JBool True), (''callbackId'', JStr ''nobody'')]"
  let ?str = "[(''upload'', JBool True), (''callbackId'', JStr ''toString'')]"
  let ?con = "[(''download'', JBool True), (''callbackId'', JStr ''constructor'')]"
  have dec: "decode modern (JObj ?up) = Some (JObj ?up)"
    "decode modern (JObj ?down) = Some (JObj ?down)"
    "decode modern (JObj ?stray) = Some (JObj ?stray)"
    "decode modern (JObj ?str) = Some (JObj ?str)"
    "decode modern (JObj ?con) = Some (JObj ?con)"
    by (simp_all add: decode_def modern_def)
  have mark: "truthy (lookup ?up ''upload'') \<or> truthy (lookup ?up ''download'')"
    "truthy (lookup ?down ''upload'') \<or> truthy (lookup ?down ''download'')"
    "truthy (lookup ?stray ''upload'') \<or> truthy (lookup ?stray ''download'')"
    "truthy (lookup ?str ''upload'') \<or> truthy (lookup ?str ''download'')"
    "truthy (lookup ?con ''upload'') \<or> truthy (lookup ?con ''download'')"
    by (simp_all add: lookup_def)
  have free: "requests waiting ''nobody'' = None" "requests waiting ''toString'' = None"
    "requests waiting ''constructor'' = None"
    unfolding waiting_def by code_simp+
  have inh: "''toString'' \<in> set inherited_names" "''constructor'' \<in> set inherited_names"
    "''nobody'' \<notin> set inherited_names"
    by (simp_all add: inherited_names_def)
  have tr: "truthy (JObj ?up)" "truthy (JObj ?down)" "truthy (JObj ?stray)"
    "truthy (JObj ?str)" "truthy (JObj ?con)"
    by simp_all
  from C9_progress_routing [OF tr(1) dec(1) mark(1), of waiting]
    C9_progress_routing [OF tr(2) dec(2) mark(2), of waiting]
    C9_progress_routing [OF tr(3) dec(3) mark(3), of waiting]
    C9_progress_routing [OF tr(4) dec(4) mark(4), of waiting]
    C9_progress_routing [OF tr(5) dec(5) mark(5), of waiting]
    waiting_id0 free inh
  show ?thesis by (simp add: lookup_def)
qed

section \<open>Classification of a reply by its status code\<close>

text \<open>
  The claim C2 as it stands fails on the code: the properties of the body are copied
  onto the failure object after \<^verbatim>\<open>statusCode\<close> has been assigned, so a body that has
  a \<^verbatim>\<open>statusCode\<close> property of its own overrides the status code of the reply. Here the
  reply carries status 404 and the failure object says 999.
\<close>

theorem C2_counterexample:
  "handle_events 0
     (snd (onmessage modern proxyOrigin
             (JArr [JObj [(''statusCode'', JNum 999)], JNum 404, JNull, JStr ''id0''] [])
             waiting))
   = [Error (JObj [(''statusCode'', JNum 999)])]"
  unfolding waiting_def by code_simp

text \<open>
  A failure reply whose body is \<^verbatim>\<open>null\<close>: \<^verbatim>\<open>body.error\<close> throws after the entry has
  been taken out of the registry, and nothing is dispatched on the handle.
\<close>

lemma null_body_failure_throws:
  "fst (onmessage modern proxyOrigin (JArr [JNull, JNum 404, JNull, JStr ''id0''] []) waiting)
     = Some TypeError \<and>
   handle_events 0
     (snd (onmessage modern proxyOrigin (JArr [JNull, JNum 404, JNull, JStr ''id0''] []) waiting))
     = [] \<and>
   requests
     (snd (onmessage modern proxyOrigin (JArr [JNull, JNum 404, JNull, JStr ''id0''] []) waiting))
     ''id0'' = None"
  unfolding waiting_def by code_simp

text \<open>
  In strict mode a truthy primitive body cannot take the \<^verbatim>\<open>_headers\<close> property:
  the assignment throws after the entry has been taken out of the registry, and nothing
  is dispatched on the handle.
\<close>

lemma primitive_body_headers_throw:
  "fst (onmessage modern proxyOrigin
          (JArr [JStr ''ok'', JNum 200, JObj [(''Date'', JStr ''today'')], JStr ''id0''] [])
          waiting)
     = Some TypeError \<and>
   handle_events 0
     (snd (onmessage modern proxyOrigin
             (JArr [JStr ''ok'', JNum 200, JObj [(''Date'', JStr ''today'')], JStr ''id0''] [])
             waiting))
     = [] \<and>
   requests
     (snd (onmessage modern proxyOrigin
             (JArr [JStr ''ok'', JNum 200, JObj [(''Date'', JStr ''today'')], JStr ''id0''] [])
             waiting))
     ''id0'' = None"
  unfolding waiting_def by code_simp

text \<open>
  C2, amended. For a reply \<^verbatim>\<open>[body, statusCode, headers, ..., token]\<close> whose token is
  registered, let \<open>body'\<close> be the body as it is passed on: an object or an array has
  taken the headers as its \<^verbatim>\<open>_headers\<close> property when the headers are truthy, any
  other body is unchanged (the one case left aside is the assignment of
  \<^verbatim>\<open>_headers\<close> to a truthy primitive body in strict mode, which throws). A status
  code that is \<^verbatim>\<open>null\<close>, \<^verbatim>\<open>undefined\<close> or a number from 200 to 299 takes the
  success path: one "load" event that carries \<open>body'\<close> is dispatched on the handle.
  Any other number takes the failure path; when the body is neither \<^verbatim>\<open>null\<close> nor
  \<^verbatim>\<open>undefined\<close>, one "error" event is dispatched on the handle, with a failure
  object on which exactly these properties have been set: \<^verbatim>\<open>name\<close>, derived from the body's
  \<^verbatim>\<open>error\<close> when that is truthy; otherwise every enumerable property of \<open>body'\<close>
  except \<^verbatim>\<open>__proto__\<close>, with the value it has there; and \<^verbatim>\<open>statusCode\<close> with the
  status code of the reply when \<open>body'\<close> has no property of that name.
\<close>

theorem C2_status_classification:
  assumes "truthy data0"
    and "decode E data0 = Some (JArr (body # statusCode # headers # rest) [])"
    and "rest \<noteq> []"
    and "requests s (to_string (last rest)) = Some r"
    and "\<not> (strict E \<and> truthy headers \<and> truthy body \<and> \<not> is_object body)"
  shows "(statusCode = JNull \<or> statusCode = JUndefined \<or>
            (\<exists>n. statusCode = JNum n \<and> 200 \<le> n \<and> n \<le> 299) \<longrightarrow>
          onmessage E proxyOrigin data0 s =
            resolve (Handle r) (with_headers body headers)
              (s\<lparr>requests := (requests s)(to_string (last rest) := None)\<rparr>) \<and>
          fst (onmessage E proxyOrigin data0 s) = None \<and>
          handle_events r (snd (onmessage E proxyOrigin data0 s)) =
            handle_events r s @ [Load (with_headers body headers)])
       \<and> (\<forall>n. statusCode = JNum n \<and> \<not> (200 \<le> n \<and> n \<le> 299) \<and>
                body \<noteq> JNull \<and> body \<noteq> JUndefined \<and>
                distinct (map fst (own_enumerable (with_headers body headers))) \<longrightarrow>
            (\<exists>err. onmessage E proxyOrigin data0 s =
                      reject (Handle r) (JObj err)
                        (s\<lparr>requests := (requests s)(to_string (last rest) := None)\<rparr>) \<and>
                   fst (onmessage E proxyOrigin data0 s) = None \<and>
                   handle_events r (snd (onmessage E proxyOrigin data0 s)) =
                     handle_events r s @ [Error (JObj err)] \<and>
                   (\<forall>k. map_of err k =
                      (if k = ''name'' \<and> truthy (read_prop body ''error'')
                       then Some (JStr (toTitle (read_prop body ''error'') @ ''Error''))
                       else if k \<noteq> ''__proto__'' \<and>
                               k \<in> fst ` set (own_enumerable (with_headers body headers))
                       then map_of (own_enumerable (with_headers body headers)) k
                       else if k = ''statusCode'' then Some (JNum n) else None))))"
proof -
  let ?s' = "s\<lparr>requests := (requests s)(to_string (last rest) := None)\<rparr>"
  let ?b = "with_headers body headers"
  note om = onmessage_classified [OF assms]
  show ?thesis
  proof (intro conjI allI impI)
    assume "statusCode = JNull \<or> statusCode = JUndefined \<or>
            (\<exists>n. statusCode = JNum n \<and> 200 \<le> n \<and> n \<le> 299)"
    then have "is_success E statusCode"
      by (auto simp add: is_success_num) (simp_all add: is_success_def)
    with om show r: "onmessage E proxyOrigin data0 s = resolve (Handle r) ?b ?s'"
      by simp
    from r handle_events_dispatch [where r = r and ev = "Load ?b" and s = s
        and m = "(requests s)(to_string (last rest) := None)"]
    show "fst (onmessage E proxyOrigin data0 s) = None"
      and "handle_events r (snd (onmessage E proxyOrigin data0 s)) = handle_events r s @ [Load ?b]"
      by (simp_all add: resolve_def)
  next
    fix n
    assume h: "statusCode = JNum n \<and> \<not> (200 \<le> n \<and> n \<le> 299) \<and>
                body \<noteq> JNull \<and> body \<noteq> JUndefined \<and>
                distinct (map fst (own_enumerable ?b))"
    then have ns: "\<not> is_success E statusCode"
      by (simp add: is_success_num)
    from h have nn: "?b \<noteq> JNull" "?b \<noteq> JUndefined"
      by (cases body; simp add: with_headers_def)+
    from h make_error_obj [OF nn, of n] obtain err where
      err: "make_error (JNum n) ?b = Inr (JObj err)"
      and chr: "\<forall>k. map_of err k =
                      (if k = ''name'' \<and> truthy (read_prop body ''error'')
                       then Some (JStr (toTitle (read_prop body ''error'') @ ''Error''))
                       else if k \<noteq> ''__proto__'' \<and> k \<in> fst ` set (own_enumerable ?b)
                       then map_of (own_enumerable ?b) k
                       else if k = ''statusCode'' then Some (JNum n) else None)"
      by (auto simp add: with_headers_error)
    from om ns h err have r: "onmessage E proxyOrigin data0 s = reject (Handle r) (JObj err) ?s'"
      by simp
    from r handle_events_dispatch [where r = r and ev = "Error (JObj err)" and s = s
        and m = "(requests s)(to_string (last rest) := None)"]
    have d: "fst (onmessage E proxyOrigin data0 s) = None"
      "handle_events r (snd (onmessage E proxyOrigin data0 s)) = handle_events r s @ [Error (JObj err)]"
      by (simp_all add: reject_def)
    from r d chr
    show "\<exists>err. onmessage E proxyOrigin data0 s = reject (Handle r) (JObj err) ?s' \<and>
                   fst (onmessage E proxyOrigin data0 s) = None \<and>
                   handle_events r (snd (onmessage E proxyOrigin data0 s)) =
                     handle_events r s @ [Error (JObj err)] \<and>
                   (\<forall>k. map_of err k =
                      (if k = ''name'' \<and> truthy (read_prop body ''error'')
                       then Some (JStr (toTitle (read_prop body ''error'') @ ''Error''))
                       else if k \<noteq> ''__proto__'' \<and> k \<in> fst ` set (own_enumerable ?b)
                       then map_of (own_enumerable ?b) k
                       else if k = ''statusCode'' then Some (JNum n) else None))"
      by blast
  qed
qed

theorem C2_status_classification_witness:
  "truthy (JArr [JObj [(''error'', JStr ''invalid_input''), (''message'', JStr ''bad'')],
                 JNum 400, JNull, JStr ''id0''] []) \<and>
   requests waiting ''id0'' = Some 0 \<and> handle_events 0 waiting = [] \<and>
   (\<exists>err. handle_events 0
             (snd (onmessage modern proxyOrigin
                (JArr [JObj [(''error'', JStr ''invalid_input''), (''message'', JStr ''bad'')],
                       JNum 400, JNull, JStr ''id0''] []) waiting)) = [Error (JObj err)] \<and>
          map_of err ''statusCode'' = Some (JNum 400) \<and>
          map_of err ''message'' = Some (JStr ''bad'')) \<and>
   handle_events 0
     (snd (onmessage modern proxyOrigin
        (JArr [JObj [(''ID'', JNum 7)], JNum 200, JObj [(''Date'', JStr ''today'')],
               JStr ''id0''] []) waiting))
     = [Load (JObj [(''ID'', JNum 7), (''_headers'', JObj [(''Date'', JStr ''today'')])])] \<and>
   handle_events 0
     (snd (onmessage modern proxyOrigin (JArr [JNull, JNum 204, JNull, JStr ''id0''] []) waiting))
     = [Load JNull] \<and>
   handle_events 0
     (snd (onmessage sloppy proxyOrigin
        (JArr [JStr ''ok'', JNum 200, JObj [(''Date'', JStr ''today'')], JStr ''id0''] [])
        waiting))
     = [Load (JStr ''ok'')] \<and>
   handle_events 0
     (snd (onmessage modern proxyOrigin (JArr [JStr ''no'', JNum 500, JNull, JStr ''id0''] [])
        waiting))
     = [Error (JObj [(''statusCode'', JNum 500), (''0'', JStr ''n''), (''1'', JStr ''o'')])] \<and>
   handle_events 0
     (snd (onmessage modern proxyOrigin
        (JArr [JObj [(''__proto__'', JNum 5), (''code'', JNum 3)], JNum 500, JNull,
               JStr ''id0''] []) waiting))
     = [Error (JObj [(''statusCode'', JNum 500), (''code'', JNum 3)])]"
proof -
  let ?fs = "[(''error'', JStr ''invalid_input''), (''message'', JStr ''bad'')]"
  let ?hs = "JObj [(''Date'', JStr ''today'')]"
  let ?bad = "JArr [JObj ?fs, JNum 400, JNull, JStr ''id0''] []"
  let ?good = "JArr [JObj [(''ID'', JNum 7)], JNum 200, ?hs, JStr ''id0''] []"
  let ?ok = "JArr [JNull, JNum 204, JNull, JStr ''id0''] []"
  let ?prim = "JArr [JStr ''ok'', JNum 200, ?hs, JStr ''id0''] []"
  have dec: "decode modern ?bad = Some ?bad" "decode modern ?good = Some ?good"
    "decode modern ?ok = Some ?ok" "decode sloppy ?prim = Some ?prim"
    by (simp_all add: decode_def modern_def sloppy_def)
  have att: "\<not> (strict modern \<and> truthy JNull \<and> truthy (JObj ?fs) \<and> \<not> is_object (JObj ?fs))"
    "\<not> (strict modern \<and> truthy ?hs \<and> truthy (JObj [(''ID'', JNum 7)]) \<and>
        \<not> is_object (JObj [(''ID'', JNum 7)]))"
    "\<not> (strict modern \<and> truthy JNull \<and> truthy JNull \<and> \<not> is_object JNull)"
    "\<not> (strict sloppy \<and> truthy ?hs \<and> truthy (JStr ''ok'') \<and> \<not> is_object (JStr ''ok''))"
    by (simp_all add: sloppy_def)
  have reg: "requests waiting (to_string (last [JStr ''id0''])) = Some 0"
    by (simp add: waiting_id0)
  have none: "handle_events 0 waiting = []"
    unfolding waiting_def by code_simp
  have tr: "truthy ?bad" "truthy ?good" "truthy ?ok" "truthy ?prim" by simp_all
  have ne: "[JStr ''id0''] \<noteq> []" by simp
  note c2 = C2_status_classification [OF tr(1) dec(1) ne reg att(1), THEN conjunct2,
      THEN spec, of 400]
  have pre: "JNum 400 = JNum 400 \<and> \<not> (200 \<le> (400::int) \<and> (400::int) \<le> 299) \<and>
      JObj ?fs \<noteq> JNull \<and> JObj ?fs \<noteq> JUndefined \<and>
      distinct (map fst (own_enumerable (with_headers (JObj ?fs) JNull)))"
    by (simp add: with_headers_def)
  from c2 [THEN mp, OF pre] obtain err where
    e1: "handle_events 0 (snd (onmessage modern proxyOrigin ?bad waiting)) =
           handle_events 0 waiting @ [Error (JObj err)]"
    and e2: "\<forall>k. map_of err k =
                      (if k = ''name'' \<and> truthy (read_prop (JObj ?fs) ''error'')
                       then Some (JStr (toTitle (read_prop (JObj ?fs) ''error'') @ ''Error''))
                       else if k \<noteq> ''__proto__'' \<and>
                               k \<in> fst ` set (own_enumerable (with_headers (JObj ?fs) JNull))
                       then map_of (own_enumerable (with_headers (JObj ?fs) JNull)) k
                       else if k = ''statusCode'' then Some (JNum 400) else None)"
    by blast
  from e2 [THEN spec, of "''statusCode''"] have e3: "map_of err ''statusCode'' = Some (JNum 400)"
    by (simp add: with_headers_def)
  from e2 [THEN spec, of "''message''"] have e4: "map_of err ''message'' = Some (JStr ''bad'')"
    by (simp add: with_headers_def)
  from e1 e3 e4 none
  have bad: "\<exists>err. handle_events 0 (snd (onmessage modern proxyOrigin ?bad waiting)) =
           [Error (JObj err)] \<and>
          map_of err ''statusCode'' = Some (JNum 400) \<and>
          map_of err ''message'' = Some (JStr ''bad'')"
    by auto
  have s1: "JNum 200 = JNull \<or> JNum 200 = JUndefined \<or>
      (\<exists>n. JNum 200 = JNum n \<and> 200 \<le> n \<and> n \<le> 299)"
    "JNum 204 = JNull \<or> JNum 204 = JUndefined \<or>
      (\<exists>n. JNum 204 = JNum n \<and> 200 \<le> n \<and> n \<le> 299)"
    by simp_all
  from C2_status_classification [OF tr(2) dec(2) ne reg att(2), THEN conjunct1, THEN mp, OF s1(1),
      THEN conjunct2, THEN conjunct2] none
  have good: "handle_events 0 (snd (onmessage modern proxyOrigin ?good waiting))
     = [Load (JObj [(''ID'', JNum 7), (''_headers'', ?hs)])]"
    by (simp add: with_headers_def)
  from C2_status_classification [OF tr(3) dec(3) ne reg att(3), THEN conjunct1, THEN mp, OF s1(2),
      THEN conjunct2, THEN conjunct2] none
  have ok: "handle_events 0 (snd (onmessage modern proxyOrigin ?ok waiting)) = [Load JNull]"
    by (simp add: with_headers_def)
  from C2_status_classification [OF tr(4) dec(4) ne reg att(4), THEN conjunct1, THEN mp, OF s1(1),
      THEN conjunct2, THEN conjunct2] none
  have prim: "handle_events 0 (snd (onmessage sloppy proxyOrigin ?prim waiting))
     = [Load (JStr ''ok'')]"
    by (simp add: with_headers_def)
  have str: "handle_events 0
     (snd (onmessage modern proxyOrigin (JArr [JStr ''no'', JNum 500, JNull, JStr ''id0''] [])
        waiting))
     = [Error (JObj [(''statusCode'', JNum 500), (''0'', JStr ''n''), (''1'', JStr ''o'')])]"
    unfolding waiting_def by code_simp
  have proto: "handle_events 0
     (snd (onmessage modern proxyOrigin
        (JArr [JObj [(''__proto__'', JNum 5), (''code'', JNum 3)], JNum 500, JNull,
               JStr ''id0''] []) waiting))
     = [Error (JObj [(''statusCode'', JNum 500), (''code'', JNum 3)])]"
    unfolding waiting_def by code_simp
  from bad good ok prim str proto waiting_id0 tr none show ?thesis by blast
qed

section \<open>The derived name of a failure\<close>

lemma upper_of_lower: "is_lower d \<Longrightarrow> CHR ''_'' \<noteq> upper d \<and> d \<noteq> CHR ''_''"
  by (auto simp add: is_lower_def upper_def lower_letters_def upper_letters_def)

lemma underscores_before_lower_tail:
  "underscores_before_lower (d # cs) \<Longrightarrow> d \<noteq> CHR ''_'' \<Longrightarrow> underscores_before_lower cs"
  by (cases cs) simp_all

lemma title_scan_no_underscore:
  "underscores_before_lower s \<Longrightarrow> CHR ''_'' \<notin> set (title_scan b s)"
proof (induction b s rule: title_scan.induct)
  case (1 start)
  then show ?case by simp
next
  case (2 start c)
  then show ?case using upper_of_lower [of c] by auto
next
  case (3 start c d cs)
  from "3.prems" have A: "c \<noteq> CHR ''_'' \<or> is_lower d"
    and B: "underscores_before_lower (d # cs)"
    by simp_all
  show ?case
  proof (cases "start \<and> is_lower c")
    case True
    with "3.IH"(1) B have "CHR ''_'' \<notin> set (title_scan False (d # cs))" by blast
    with True upper_of_lower [of c] show ?thesis by auto
  next
    case False
    show ?thesis
    proof (cases "c = CHR ''_'' \<and> is_lower d")
      case True
      with B upper_of_lower [of d] have "underscores_before_lower cs"
        by (blast intro: underscores_before_lower_tail)
      with "3.IH"(2) False True have "CHR ''_'' \<notin> set (title_scan False cs)" by blast
      with False True upper_of_lower [of d] show ?thesis by auto
    next
      case nu: False
      with A have "c \<noteq> CHR ''_''" by blast
      moreover from "3.IH"(3) False nu B have "CHR ''_'' \<notin> set (title_scan False (d # cs))"
        by blast
      ultimately show ?thesis using False nu by auto
    qed
  qed
qed

lemma toTitle_no_underscore:
  "underscores_before_lower s \<Longrightarrow> CHR ''_'' \<notin> set (toTitle (JStr s))"
  by (simp add: toTitle_def title_scan_no_underscore)

text \<open>The letter tables of \<^verbatim>\<open>toTitle\<close> against the character codes.\<close>

lemma lower_table: "\<forall>c\<in>set lower_letters. ascii_lower c \<and> upper c = ascii_upper c"
  by code_simp

lemma lower_codes: "\<forall>n\<in>{97..122::nat}. char_of n \<in> set lower_letters"
  by code_simp

lemma is_lower_ascii: "is_lower c = ascii_lower c"
proof
  assume "is_lower c"
  with lower_table show "ascii_lower c" by (simp add: is_lower_def)
next
  assume "ascii_lower c"
  then have "(of_char c :: nat) \<in> {97..122}" by (simp add: ascii_lower_def)
  from lower_codes [THEN bspec, OF this] show "is_lower c" by (simp add: is_lower_def)
qed

lemma upper_ascii: "is_lower c \<Longrightarrow> upper c = ascii_upper c"
  using lower_table by (simp add: is_lower_def)

text \<open>The scan of the regular expression against title-casing said in words.\<close>

lemma underscore_not_lower: "\<not> is_lower (CHR ''_'')"
  using upper_of_lower [of "CHR ''_''"] by blast

lemma title_scan_from:
  "(b \<longleftrightarrow> prev = None) \<Longrightarrow>
   (prev = Some (CHR ''_'') \<Longrightarrow> s = [] \<or> \<not> is_lower (hd s)) \<Longrightarrow>
     title_scan b s = title_from prev s"
proof (induction b s arbitrary: prev rule: title_scan.induct)
  case (1 start)
  then show ?case by simp
next
  case (2 start c)
  then show ?case
    using upper_ascii [of c] by (auto simp add: is_lower_ascii [symmetric])
next
  case (3 start c d cs)
  have tf: "title_from prev (c # d # cs) =
      (if c = CHR ''_'' \<and> is_lower d then title_from (Some c) (d # cs)
       else if is_lower c \<and> (prev = None \<or> prev = Some (CHR ''_''))
         then upper c # title_from (Some c) (d # cs)
       else c # title_from (Some c) (d # cs))"
    using upper_ascii [of c] by (auto simp add: is_lower_ascii)
  have tf2: "is_lower d \<Longrightarrow> title_from (Some (CHR ''_'')) (d # cs) = upper d # title_from (Some d) cs"
    using upper_ascii [of d] upper_of_lower [of d] by (auto simp add: is_lower_ascii)
  have ts: "title_scan start (c # d # cs) =
     (if start \<and> is_lower c then upper c # title_scan False (d # cs)
      else if c = CHR ''_'' \<and> is_lower d then upper d # title_scan False cs
      else c # title_scan False (d # cs))"
    by simp
  show ?case
  proof (cases "start \<and> is_lower c")
    case True
    then have c: "c \<noteq> CHR ''_''" using upper_of_lower [of c] by blast
    have "title_scan False (d # cs) = title_from (Some c) (d # cs)"
      by (rule "3.IH"(1) [OF True]) (simp_all add: c)
    with True c "3.prems"(1) show ?thesis
      unfolding tf ts by (auto simp del: title_from.simps title_scan.simps)
  next
    case False
    show ?thesis
    proof (cases "c = CHR ''_'' \<and> is_lower d")
      case True
      then have d: "d \<noteq> CHR ''_''" using upper_of_lower [of d] by blast
      have "title_scan False cs = title_from (Some d) cs"
        by (rule "3.IH"(2) [OF False True]) (simp_all add: d)
      with False True show ?thesis
        unfolding tf ts by (simp del: title_from.simps title_scan.simps add: tf2 underscore_not_lower)
    next
      case nu: False
      have ih: "title_scan False (d # cs) = title_from (Some c) (d # cs)"
        by (rule "3.IH"(3) [OF False nu]) (use nu in auto)
      have "\<not> (is_lower c \<and> (prev = None \<or> prev = Some (CHR ''_'')))"
        using False "3.prems" by auto
      with False nu ih show ?thesis
        unfolding tf ts by (auto simp del: title_from.simps title_scan.simps)
    qed
  qed
qed

lemma toTitle_title_words: "toTitle v = title_words v"
proof (cases v)
  case (JStr s)
  have "title_scan True s = title_from None s"
    by (rule title_scan_from) simp_all
  with JStr show ?thesis by (cases s) (simp_all add: toTitle_def title_words_def)
qed (simp_all add: toTitle_def title_words_def)

text \<open>
  The claim C6 as it stands fails on the code: \<^verbatim>\<open>toTitle\<close> removes an underscore
  only together with the lower-case letter that follows it. The error code
  \<^verbatim>\<open>http_404\<close> yields a name that still has its underscore.
\<close>

theorem C6_counterexample:
  "handle_events 0
     (snd (onmessage modern proxyOrigin
             (JArr [JObj [(''error'', JStr ''http_404'')], JNum 404, JNull, JStr ''id0''] [])
             waiting))
   = [Error (JObj [(''statusCode'', JNum 404), (''error'', JStr ''http_404''),
                   (''name'', JStr ''Http_404Error'')])] \<and>
   CHR ''_'' \<in> set ''Http_404Error''"
  unfolding waiting_def by code_simp

text \<open>
  C6, amended. For a reply on the failure path whose body has a truthy \<^verbatim>\<open>error\<close>
  property, one "error" event is dispatched on the handle, and the \<^verbatim>\<open>name\<close> of the
  failure object it carries is the title-casing of that property followed by
  \<^verbatim>\<open>Error\<close>. Title-casing is what \<open>title_words\<close> says, and \<^verbatim>\<open>toTitle\<close> computes
  exactly that: the empty string for a value that is not a string; in a string, each
  lower-case letter that starts it or follows an underscore in upper case, that
  underscore dropped, every other character (an underscore before anything else
  included) kept. When every underscore of the string stands right before a lower-case
  letter, the result has no underscore. The instance below is the reply
  \<^verbatim>\<open>{error: "invalid_input", message: "bad"}\<close> at status 400.
\<close>

theorem C6_derived_name:
  assumes "truthy data0"
    and "decode E data0 = Some (JArr (body # JNum n # headers # rest) [])"
    and "rest \<noteq> []"
    and "requests s (to_string (last rest)) = Some r"
    and "\<not> (200 \<le> n \<and> n \<le> 299)"
    and "truthy (read_prop body ''error'')"
  shows "(\<exists>err. fst (onmessage E proxyOrigin data0 s) = None \<and>
                handle_events r (snd (onmessage E proxyOrigin data0 s)) =
                  handle_events r s @ [Error (JObj err)] \<and>
                map_of err ''name'' =
                  Some (JStr (title_words (read_prop body ''error'') @ ''Error'')))
       \<and> toTitle v = title_words v
       \<and> ((\<forall>str. v \<noteq> JStr str) \<longrightarrow> toTitle v = [])
       \<and> (underscores_before_lower str \<longrightarrow> CHR ''_'' \<notin> set (toTitle (JStr str)))"
proof -
  let ?b = "with_headers body headers"
  let ?m = "(requests s)(to_string (last rest) := None)"
  from error_needs_object [OF assms(6)]
  have att: "\<not> (strict E \<and> truthy headers \<and> truthy body \<and> \<not> is_object body)" by simp
  from assms(6) have "truthy (read_prop ?b ''error'')" by (simp add: with_headers_error)
  from make_error_name [OF this, of "JNum n"] obtain err where
    err: "make_error (JNum n) ?b = Inr (JObj err)"
    and nm: "map_of err ''name'' = Some (JStr (title_words (read_prop body ''error'') @ ''Error''))"
    by (auto simp add: with_headers_error toTitle_title_words)
  from onmessage_classified [OF assms(1-4) att] assms(5) err
  have "onmessage E proxyOrigin data0 s = reject (Handle r) (JObj err) (s\<lparr>requests := ?m\<rparr>)"
    by (simp add: is_success_num)
  with handle_events_dispatch [where r = r and ev = "Error (JObj err)" and s = s and m = ?m]
  have "fst (onmessage E proxyOrigin data0 s) = None"
    "handle_events r (snd (onmessage E proxyOrigin data0 s)) = handle_events r s @ [Error (JObj err)]"
    by (simp_all add: reject_def)
  with nm have first: "\<exists>err. fst (onmessage E proxyOrigin data0 s) = None \<and>
                handle_events r (snd (onmessage E proxyOrigin data0 s)) =
                  handle_events r s @ [Error (JObj err)] \<and>
                map_of err ''name'' =
                  Some (JStr (title_words (read_prop body ''error'') @ ''Error''))"
    by blast
  have non: "(\<forall>str. v \<noteq> JStr str) \<longrightarrow> toTitle v = []"
    by (cases v) (simp_all add: toTitle_def)
  have und: "underscores_before_lower str \<longrightarrow> CHR ''_'' \<notin> set (toTitle (JStr str))"
    by (simp add: toTitle_no_underscore)
  from first toTitle_title_words [of v] non und show ?thesis
    by blast
qed

theorem C6_derived_name_witness:
  "truthy (JArr [JObj [(''error'', JStr ''invalid_input''), (''message'', JStr ''bad'')],
                 JNum 400, JNull, JStr ''id0''] []) \<and>
   requests waiting ''id0'' = Some 0 \<and> handle_events 0 waiting = [] \<and>
   truthy (read_prop (JObj [(''error'', JStr ''invalid_input''), (''message'', JStr ''bad'')])
             ''error'') \<and>
   (\<exists>err. handle_events 0
            (snd (onmessage modern proxyOrigin
               (JArr [JObj [(''error'', JStr ''invalid_input''), (''message'', JStr ''bad'')],
                      JNum 400, JNull, JStr ''id0''] []) waiting)) = [Error (JObj err)] \<and>
          map_of err ''name'' = Some (JStr ''InvalidInputError'')) \<and>
   handle_events 0
     (snd (onmessage modern proxyOrigin
             (JArr [JObj [(''error'', JStr ''invalid_input''), (''message'', JStr ''bad'')],
                    JNum 400, JNull, JStr ''id0''] []) waiting))
   = [Error (JObj [(''statusCode'', JNum 400), (''error'', JStr ''invalid_input''),
                   (''message'', JStr ''bad''), (''name'', JStr ''InvalidInputError'')])] \<and>
   toTitle (JStr ''invalid_input'') = ''InvalidInput'' \<and>
   toTitle (JStr ''z'') = ''Z'' \<and>
   toTitle (JNum 404) = [] \<and>
   underscores_before_lower ''invalid_input'' \<and>
   CHR ''_'' \<notin> set (toTitle (JStr ''invalid_input''))"
proof -
  let ?fs = "[(''error'', JStr ''invalid_input''), (''message'', JStr ''bad'')]"
  let ?bad = "JArr [JObj ?fs, JNum 400, JNull, JStr ''id0''] []"
  have tr: "truthy ?bad" by simp
  have dec: "decode modern ?bad = Some ?bad"
    by (simp add: decode_def modern_def)
  have ne: "[JStr ''id0''] \<noteq> []" by simp
  have reg: "requests waiting (to_string (last [JStr ''id0''])) = Some 0"
    by (simp add: waiting_id0)
  have st: "\<not> (200 \<le> (400::int) \<and> (400::int) \<le> 299)" by simp
  have er: "truthy (read_prop (JObj ?fs) ''error'')" by (simp add: read_prop_def lookup_def)
  have none: "handle_events 0 waiting = []"
    unfolding waiting_def by code_simp
  have tw: "title_words (read_prop (JObj ?fs) ''error'') @ ''Error'' = ''InvalidInputError''"
    "title_words (JStr ''invalid_input'') = ''InvalidInput''"
    "title_words (JStr ''z'') = ''Z''"
    "title_words (JNum 404) = []"
    by code_simp+
  have ub: "underscores_before_lower ''invalid_input''"
    by code_simp
  have nostr: "\<forall>str. JNum 404 \<noteq> JStr str" by simp
  have ev: "handle_events 0 (snd (onmessage modern proxyOrigin ?bad waiting))
     = [Error (JObj [(''statusCode'', JNum 400), (''error'', JStr ''invalid_input''),
                   (''message'', JStr ''bad''), (''name'', JStr ''InvalidInputError'')])]"
    unfolding waiting_def by code_simp
  note t = C6_derived_name [OF tr dec ne reg st er]
  from t [of "JNull" "[]", THEN conjunct1] tw(1) none
  have nm: "\<exists>err. handle_events 0 (snd (onmessage modern proxyOrigin ?bad waiting)) =
              [Error (JObj err)] \<and>
          map_of err ''name'' = Some (JStr ''InvalidInputError'')"
    by simp
  from t [of "JStr ''invalid_input''" "''invalid_input''", THEN conjunct2, THEN conjunct1] tw(2)
  have t1: "toTitle (JStr ''invalid_input'') = ''InvalidInput''" by simp
  from t [of "JStr ''z''" "[]", THEN conjunct2, THEN conjunct1] tw(3)
  have t2: "toTitle (JStr ''z'') = ''Z''" by simp
  from t [of "JNum 404" "[]", THEN conjunct2, THEN conjunct2, THEN conjunct1, THEN mp, OF nostr]
  have t3: "toTitle (JNum 404) = []" .
  from t [of "JNull" "''invalid_input''", THEN conjunct2, THEN conjunct2, THEN conjunct2,
      THEN mp, OF ub]
  have t4: "CHR ''_'' \<notin> set (toTitle (JStr ''invalid_input''))" .
  from tr waiting_id0 none er nm ev t1 t2 t3 t4 ub show ?thesis by blast
qed

section \<open>What the outbound operations leave alone\<close>

lemma posts_refl [simp]: "posts s s"
  by (simp add: posts_def)



lemma posts_flag [simp]: "posts s (s\<lparr>hasFileSerializationBug := b\<rparr>)"
  by (simp add: posts_def)







section \<open>The buffer and its flush\<close>

lemma onload_stops:
  assumes "buffered s = Some (p # q)" and "\<not> hasFile p" and "\<not> (postStrings E \<and> strict E)"
    and "postMessage_throws E (direct_payload E p) = Some e"
  shows "onload E s = (Some e, s\<lparr>loaded := True, effects := effects s @ [Submitted p]\<rparr>)"
  using assms(1) submitRequest_direct_throw [OF assms(2-4), of "s\<lparr>loaded := True\<rparr>"]
  by (simp add: onload_def Let_def)

text \<open>
  C3. The loop of \<^verbatim>\<open>onload\<close>, which its comment says flushes any buffered call,
  has nothing around \<^verbatim>\<open>submitRequest\<close>: when the first buffered call holds no
  \<^verbatim>\<open>File\<close> and the channel throws on its payload, the "load" handler ends with
  that exception right there. \<open>loaded\<close> is true by then, the
  first call is the only one that was handed to \<^verbatim>\<open>submitRequest\<close>, nothing was
  posted, and the buffer has not been set to \<^verbatim>\<open>null\<close>: the calls behind the first
  one stay in it, never submitted. A further "load" event ends the same way.
\<close>

theorem C3_flush_stops_at_throw:
  assumes "buffered s = Some (p # q)" and "\<not> hasFile p" and "\<not> (postStrings E \<and> strict E)"
    and "postMessage_throws E (direct_payload E p) = Some e"
  shows "fst (onload E s) = Some e \<and>
         loaded (snd (onload E s)) \<and>
         buffered (snd (onload E s)) \<noteq> None \<and>
         effects (snd (onload E s)) = effects s @ [Submitted p] \<and>
         fst (onload E (snd (onload E s))) = Some e"
proof -
  let ?s' = "s\<lparr>loaded := True, effects := effects s @ [Submitted p]\<rparr>"
  have a: "onload E s = (Some e, ?s')"
    by (rule onload_stops [OF assms])
  from assms(1) have "buffered ?s' = Some (p # q)" by simp
  from onload_stops [OF this assms(2-4)] have "fst (onload E ?s') = Some e" by simp
  with a assms(1) show ?thesis by simp
qed

theorem C3_flush_stops_at_throw_witness:
  "buffered stranded =
     Some [call_params cloning 0 (Params widget), call_params cloning 1 (Path ''/me'')] \<and>
   effects stranded = [] \<and>
   \<not> hasFile (call_params cloning 0 (Params widget)) \<and>
   \<not> (postStrings cloning \<and> strict cloning) \<and>
   postMessage_throws cloning (direct_payload cloning (call_params cloning 0 (Params widget)))
     = Some (Thrown (JStr ''DataCloneError'')) \<and>
   fst (step cloning IframeLoad stranded) = Some (Thrown (JStr ''DataCloneError'')) \<and>
   loaded (snd (step cloning IframeLoad stranded)) \<and>
   buffered (snd (step cloning IframeLoad stranded)) \<noteq> None \<and>
   effects (snd (step cloning IframeLoad stranded))
     = [Submitted (call_params cloning 0 (Params widget))] \<and>
   fst (step cloning IframeLoad (snd (step cloning IframeLoad stranded)))
     = Some (Thrown (JStr ''DataCloneError''))"
proof -
  let ?p = "call_params cloning 0 (Params widget)"
  let ?q = "[call_params cloning 1 (Path ''/me'')]"
  have b: "buffered stranded = Some (?p # ?q)"
    unfolding stranded_def by code_simp
  have e0: "effects stranded = []"
    unfolding stranded_def by code_simp
  have i: "iframe stranded"
    unfolding stranded_def by code_simp
  have nf: "\<not> hasFile ?p"
    by code_simp
  have ns: "\<not> (postStrings cloning \<and> strict cloning)"
    by code_simp
  have th: "postMessage_throws cloning (direct_payload cloning ?p)
     = Some (Thrown (JStr ''DataCloneError''))"
    by code_simp
  note t = C3_flush_stops_at_throw [OF b nf ns th]
  from t have i': "iframe (snd (onload cloning stranded))"
    using i onload_stops [OF b nf ns th] by simp
  from t i i' b e0 nf ns th show ?thesis
    by (simp add: step_def)
qed

section \<open>A failed attachment read\<close>

text \<open>
  C4. The reader's failure handler is stored under \<^verbatim>\<open>onError\<close>, a property a
  \<^verbatim>\<open>FileReader\<close> never calls: when a read fails nothing runs, so nothing is dispatched
  on the handle of the call, whose token stays in the registry. And if \<^verbatim>\<open>onLoad\<close> is
  reached with a read error, its \<^verbatim>\<open>reject(err)\<close> dispatches on the error, not on the
  handle: it throws a TypeError and, again, the handle sees nothing.
\<close>

theorem C4_read_failure_not_reported:
  "fst (reader_fires E j i (ReadError err) s) = None \<and>
   effects (snd (reader_fires E j i (ReadError err) s)) = effects s \<and>
   requests (snd (reader_fires E j i (ReadError err) s)) = requests s \<and>
   heap (snd (reader_fires E j i (ReadError err) s)) = heap s \<and>
   (truthy err \<and> j < length (jobs s) \<and> \<not> job_called (jobs s ! j) \<longrightarrow>
      onLoad E j err file idx s =
        (Some TypeError, s\<lparr>jobs := (jobs s)[j := (jobs s ! j)\<lparr>job_called := True\<rparr>]\<rparr>))"
  by (simp add: reader_fires_def Let_def reader_properties_def handler_property_def
      onLoad_def reject_def dispatchEvent_def)

theorem C4_read_failure_not_reported_witness:
  "job_readers (jobs uploading ! 0) = [0] \<and>
   fst (reader_fires no_file_clone 0 0 (ReadError (JStr ''NotReadableError'')) uploading) = None \<and>
   effects (snd (reader_fires no_file_clone 0 0 (ReadError (JStr ''NotReadableError'')) uploading))
     = effects uploading \<and>
   handle_events 0
     (snd (reader_fires no_file_clone 0 0 (ReadError (JStr ''NotReadableError'')) uploading)) = [] \<and>
   requests (snd (reader_fires no_file_clone 0 0 (ReadError (JStr ''NotReadableError'')) uploading))
     ''id0'' = Some 0 \<and>
   truthy (JStr ''NotReadableError'') \<and> 0 < length (jobs uploading) \<and>
   \<not> job_called (jobs uploading ! 0) \<and>
   fst (onLoad no_file_clone 0 (JStr ''NotReadableError'') (Plain JUndefined) None uploading)
     = Some TypeError \<and>
   effects (snd (onLoad no_file_clone 0 (JStr ''NotReadableError'') (Plain JUndefined) None
                   uploading)) = effects uploading"
proof -
  have a: "job_readers (jobs uploading ! 0) = [0]"
    unfolding uploading_def by code_simp
  have b: "handle_events 0 uploading = []"
    unfolding uploading_def by code_simp
  have c: "requests uploading ''id0'' = Some 0"
    unfolding uploading_def by code_simp
  have d: "\<not> job_called (jobs uploading ! 0)"
    unfolding uploading_def by code_simp
  have e: "truthy (JStr ''NotReadableError'')" by simp
  have h: "0 < length (jobs uploading)"
    unfolding uploading_def by code_simp
  note t = C4_read_failure_not_reported [of no_file_clone 0 0 "JStr ''NotReadableError''" uploading
      "Plain JUndefined" None]
  from t b have f: "handle_events 0
     (snd (reader_fires no_file_clone 0 0 (ReadError (JStr ''NotReadableError'')) uploading)) = []"
    by (simp add: handle_events_def)
  from t d e h have g: "onLoad no_file_clone 0 (JStr ''NotReadableError'') (Plain JUndefined) None uploading
      = (Some TypeError, uploading\<lparr>jobs := (jobs uploading)[0 := (jobs uploading ! 0)\<lparr>job_called := True\<rparr>]\<rparr>)"
    by blast
  from t a c d e f g h show ?thesis by simp
qed

section \<open>At most one terminal result\<close>

lemma handle_events_append:
  "handle_events r (s\<lparr>effects := effects s @ es\<rparr>) =
     handle_events r s @ List.map_filter (handle_event r) es"
  by (simp add: handle_events_def map_filter_append)




















lemma terminal_Progress [simp]: "\<not> terminal (Progress d)"
  by (simp add: terminal_def)















end
